theory Spec2Isabelle
  imports Main "HOL-Library.Word"
begin

unbundle bit_operations_syntax

section \<open>autossh-go: tunnel engine and connection monitor\<close>

text \<open>
  A shallow embedding of the Go sources: the forward-spec parsers of
  \<^verbatim>\<open>internal/config/config.go\<close>, the SSH client wrapper and the monitor of
  \<^verbatim>\<open>internal/ssh/client.go\<close>, the SOCKS5 endpoint of
  \<^verbatim>\<open>internal/tunnel/remote.go\<close> and the relay of
  \<^verbatim>\<open>internal/tunnel/local.go\<close>.
  Bytes are \<open>8 word\<close>, \<^verbatim>\<open>time.Duration\<close> is a signed 64-bit count of
  nanoseconds (\<open>64 word\<close> read with \<open>sint\<close>), Go strings are \<open>string\<close>.
\<close>

type_synonym byte = "8 word"
type_synonym duration = "64 word"

subsection \<open>Monitor.calculateBackoff\<close>

text \<open>\<^verbatim>\<open>time.Second\<close>: 10^9 nanoseconds.\<close>

definition second :: duration where
  "second = 1000000000"

text \<open>
  \<^verbatim>\<open>for i := 1; i < attempt && i < 6; i++ { backoff *= 2 }\<close>
  The counter never leaves 1..6, so it is an \<open>int\<close>; the product is a
  \<^verbatim>\<open>time.Duration\<close> and wraps as Go's int64 multiplication does.
\<close>

function backoff_loop :: "int \<Rightarrow> int \<Rightarrow> duration \<Rightarrow> duration" where
  "backoff_loop i attempt backoff =
     (if i < attempt \<and> i < 6 then backoff_loop (i + 1) attempt (backoff * 2) else backoff)"
  by pat_completeness auto
termination
  by (relation "measure (\<lambda>(i, attempt, backoff). nat (6 - i))") auto

declare backoff_loop.simps [simp del]

definition calculateBackoff :: "int \<Rightarrow> duration \<Rightarrow> duration" where
  "calculateBackoff attempt baseInterval =
     (let backoff = backoff_loop 1 attempt baseInterval;
          maxBackoff = 60 * second
      in if maxBackoff <s backoff then maxBackoff else backoff)"

subsection \<open>Forward-spec parsing (config.go)\<close>

record LocalTunnel =
  lt_Bind :: string
  lt_Target :: string

record RemoteTunnel =
  rt_Bind :: string
  rt_Target :: string

record DynamicTunnel =
  dt_Bind :: string

datatype parse_error = InvalidLocalForward string | InvalidRemoteForward string

text \<open>
  \<^verbatim>\<open>strings.Split(spec, ":")\<close>: the substrings between the separators, in
  order; a string without separator is returned whole, the empty string gives
  one empty part.
\<close>

fun split_colon :: "string \<Rightarrow> string list" where
  "split_colon [] = [[]]"
| "split_colon (c # cs) =
     (if c = CHR '':'' then [] # split_colon cs
      else (case split_colon cs of
              [] \<Rightarrow> [[c]]
            | p # ps \<Rightarrow> (c # p) # ps))"

definition ParseLocalForward :: "string \<Rightarrow> parse_error + LocalTunnel" where
  "ParseLocalForward spec =
     (case split_colon spec of
        [p0, p1, p2] \<Rightarrow>
          Inr \<lparr>lt_Bind = ''127.0.0.1:'' @ p0, lt_Target = p1 @ '':'' @ p2\<rparr>
      | [p0, p1, p2, p3] \<Rightarrow>
          Inr \<lparr>lt_Bind = p0 @ '':'' @ p1, lt_Target = p2 @ '':'' @ p3\<rparr>
      | _ \<Rightarrow> Inl (InvalidLocalForward spec))"

definition ParseRemoteForward :: "string \<Rightarrow> parse_error + RemoteTunnel" where
  "ParseRemoteForward spec =
     (case split_colon spec of
        [p0, p1, p2] \<Rightarrow>
          Inr \<lparr>rt_Bind = ''0.0.0.0:'' @ p0, rt_Target = p1 @ '':'' @ p2\<rparr>
      | [p0, p1, p2, p3] \<Rightarrow>
          Inr \<lparr>rt_Bind = p0 @ '':'' @ p1, rt_Target = p2 @ '':'' @ p3\<rparr>
      | _ \<Rightarrow> Inl (InvalidRemoteForward spec))"

text \<open>\<^verbatim>\<open>strings.Contains(spec, ":")\<close> decides; this parser never fails.\<close>

definition ParseDynamicForward :: "string \<Rightarrow> parse_error + DynamicTunnel" where
  "ParseDynamicForward spec =
     (if CHR '':'' \<in> set spec then Inr \<lparr>dt_Bind = spec\<rparr>
      else Inr \<lparr>dt_Bind = ''127.0.0.1:'' @ spec\<rparr>)"

subsection \<open>The spec's notion of a canonical address\<close>





subsection \<open>Monitor.Start (client.go, package monitor)\<close>

text \<open>\<^verbatim>\<open>config.ReconnectConfig\<close>; \<open>MaxRetries = 0\<close> means no limit.\<close>

record ReconnectConfig =
  Enabled :: bool
  Interval :: duration
  MaxRetries :: int

text \<open>
  What the environment does to one iteration of the loop, in the order the loop
  asks: is \<^verbatim>\<open>stopCh\<close> closed at the top; does \<^verbatim>\<open>client.Connect\<close> fail (and if
  the loop then waits, does the stop arrive before the timer); does
  \<^verbatim>\<open>tunnelMgr.Start\<close> fail; and, while connected, which of the stop request and
  the keepalive error arrives. \<open>'e\<close> is the type of Go errors.
\<close>

datatype 'e iteration =
    StopRequested
  | ConnectFails 'e bool
  | TunnelStartFails 'e
  | StoppedWhileConnected
  | KeepAliveFails 'e

text \<open>What the loop does, in order: the calls it makes and the waits it enters.\<close>

datatype action =
    AConnect
  | ABackoff duration
  | ATunnelStart
  | ATunnelStop
  | AClientClose
  | AStartKeepAlive

text \<open>
  \<open>Returned None\<close> is \<^verbatim>\<open>return nil\<close>, \<open>Returned (Some err)\<close> is \<^verbatim>\<open>return err\<close>;
  \<open>Running\<close>: the environment's events are used up and the loop is at its next
  iteration. A run is the outcome, the value of \<^verbatim>\<open>retryCount\<close> and the actions.
\<close>

datatype 'e outcome = Returned "'e option" | Running

type_synonym 'e run = "'e outcome \<times> int \<times> action list"

definition emit :: "action list \<Rightarrow> 'e run \<Rightarrow> 'e run" where
  "emit as r = (case r of (out, rc, tr) \<Rightarrow> (out, rc, as @ tr))"

text \<open>
  The \<^verbatim>\<open>for\<close> loop of \<^verbatim>\<open>Monitor.Start\<close>, one equation per way through its body.
  \<^verbatim>\<open>retryCount\<close> is a Go \<^verbatim>\<open>int\<close> that only counts up from 0 by one per failed
  connect; it is an \<open>int\<close> here.
\<close>

fun Start_loop :: "ReconnectConfig \<Rightarrow> int \<Rightarrow> 'e iteration list \<Rightarrow> 'e run" where
  "Start_loop cfg retryCount [] = (Running, retryCount, [])"
| "Start_loop cfg retryCount (StopRequested # evs) = (Returned None, retryCount, [])"
| "Start_loop cfg retryCount (ConnectFails err stop # evs) =
     (if \<not> Enabled cfg then (Returned (Some err), retryCount, [AConnect])
      else let retryCount' = retryCount + 1 in
        if MaxRetries cfg > 0 \<and> retryCount' \<ge> MaxRetries cfg
        then (Returned (Some err), retryCount', [AConnect])
        else let waitTime = calculateBackoff retryCount' (Interval cfg) in
          if stop then (Returned None, retryCount', [AConnect, ABackoff waitTime])
          else emit [AConnect, ABackoff waitTime] (Start_loop cfg retryCount' evs))"
| "Start_loop cfg retryCount (TunnelStartFails err # evs) =
     emit [AConnect, ATunnelStart, AClientClose] (Start_loop cfg 0 evs)"
| "Start_loop cfg retryCount (StoppedWhileConnected # evs) =
     (Returned None, 0, [AConnect, ATunnelStart, AStartKeepAlive, ATunnelStop, AClientClose])"
| "Start_loop cfg retryCount (KeepAliveFails err # evs) =
     (if \<not> Enabled cfg
      then (Returned (Some err), 0,
            [AConnect, ATunnelStart, AStartKeepAlive, ATunnelStop, AClientClose])
      else emit [AConnect, ATunnelStart, AStartKeepAlive, ATunnelStop, AClientClose]
             (Start_loop cfg 0 evs))"

definition Monitor_Start :: "ReconnectConfig \<Rightarrow> 'e iteration list \<Rightarrow> 'e run" where
  "Monitor_Start cfg evs = Start_loop cfg 0 evs"

text \<open>Consecutive connect failures whose backoff waits run to their end.\<close>

definition failures :: "'e list \<Rightarrow> 'e iteration list" where
  "failures es = map (\<lambda>e. ConnectFails e False) es"

text \<open>The actions of failed attempts \<open>i\<close> to \<open>j\<close>: a connect, then the backoff wait.\<close>

definition backoff_trace :: "ReconnectConfig \<Rightarrow> int \<Rightarrow> int \<Rightarrow> action list" where
  "backoff_trace cfg i j =
     concat (map (\<lambda>k. [AConnect, ABackoff (calculateBackoff k (Interval cfg))]) [i..j])"

subsection \<open>The SSH client wrapper (client.go, package ssh)\<close>

text \<open>
  The handle \<^verbatim>\<open>*ssh.Client\<close> of golang.org/x/crypto/ssh is outside the repository:
  it is a record of what its calls answer. A connection or listener it hands
  out is a number; an error is its message.
\<close>

datatype client_error = SSHNotConnected | TransportError string

record transport =
  t_Dial :: "string \<Rightarrow> string \<Rightarrow> client_error + nat"
  t_Listen :: "string \<Rightarrow> string \<Rightarrow> client_error + nat"
  t_SendRequest :: "client_error option"
  t_Close :: "client_error option"

text \<open>
  \<^verbatim>\<open>type Client struct { cfg; conn *ssh.Client; mu; closed bool }\<close>: a nil
  \<^verbatim>\<open>conn\<close> is \<open>None\<close>; the mutex is left out. The methods take the struct and return it with their
  result, so that what they change is visible.
\<close>

record 'cfg Client =
  cl_cfg :: 'cfg
  cl_conn :: "transport option"
  cl_closed :: bool

definition NewClient :: "'cfg \<Rightarrow> 'cfg Client" where
  "NewClient c = \<lparr>cl_cfg = c, cl_conn = None, cl_closed = False\<rparr>"

text \<open>
  \<^verbatim>\<open>Connect\<close>: an old handle is closed and dropped first; \<open>dialed\<close> is what
  \<^verbatim>\<open>GetAuthMethods\<close> and \<^verbatim>\<open>ssh.Dial\<close> come to (an error, or the new handle).
\<close>

definition Connect :: "'cfg Client \<Rightarrow> client_error + transport \<Rightarrow> client_error option \<times> 'cfg Client" where
  "Connect c dialed =
     (let c1 = (if cl_conn c \<noteq> None then c\<lparr>cl_conn := None\<rparr> else c)
      in case dialed of
           Inl err \<Rightarrow> (Some err, c1)
         | Inr h \<Rightarrow> (None, c1\<lparr>cl_conn := Some h, cl_closed := False\<rparr>))"

definition Close :: "'cfg Client \<Rightarrow> client_error option \<times> 'cfg Client" where
  "Close c =
     (let c1 = c\<lparr>cl_closed := True\<rparr>
      in case cl_conn c1 of
           Some h \<Rightarrow> (t_Close h, c1\<lparr>cl_conn := None\<rparr>)
         | None \<Rightarrow> (None, c1))"

definition Dial :: "'cfg Client \<Rightarrow> string \<Rightarrow> string \<Rightarrow> (client_error + nat) \<times> 'cfg Client" where
  "Dial c network address =
     (case cl_conn c of
        None \<Rightarrow> (Inl SSHNotConnected, c)
      | Some h \<Rightarrow> (t_Dial h network address, c))"

definition Listen :: "'cfg Client \<Rightarrow> string \<Rightarrow> string \<Rightarrow> (client_error + nat) \<times> 'cfg Client" where
  "Listen c network address =
     (case cl_conn c of
        None \<Rightarrow> (Inl SSHNotConnected, c)
      | Some h \<Rightarrow> (t_Listen h network address, c))"

definition KeepAlive :: "'cfg Client \<Rightarrow> client_error option \<times> 'cfg Client" where
  "KeepAlive c =
     (case cl_conn c of
        None \<Rightarrow> (Some SSHNotConnected, c)
      | Some h \<Rightarrow> (t_SendRequest h, c))"

subsection \<open>Connections as byte streams\<close>

text \<open>
  \<^verbatim>\<open>net.TCPAddr\<close>: \<^verbatim>\<open>IP\<close> is a byte slice, \<open>None\<close> when it is nil;
  \<^verbatim>\<open>Port\<close> is a Go \<^verbatim>\<open>int\<close>.
\<close>

record TCPAddr =
  IP :: "byte list option"
  Port :: int

text \<open>
  A \<^verbatim>\<open>net.Conn\<close> as the SOCKS5 code uses it: \<open>inp\<close> are the bytes the peer sends
  before it closes its side, \<open>outp\<close> the bytes written to it so far, \<open>wr_broken\<close>
  says that \<^verbatim>\<open>Write\<close> fails, \<open>LocalAddr\<close> is the accept address.
\<close>

record netconn =
  inp :: "byte list"
  outp :: "byte list"
  wr_broken :: bool
  LocalAddr :: TCPAddr

text \<open>
  \<^verbatim>\<open>io.ReadFull(conn, buf)\<close> with \<open>len(buf) = n\<close>: exactly \<open>n\<close> bytes, or an error
  when the stream ends before (what was left is consumed). For \<open>n = 0\<close> it
  returns at once without error.
\<close>

definition ReadFull :: "netconn \<Rightarrow> nat \<Rightarrow> byte list option \<times> netconn" where
  "ReadFull c n =
     (if n \<le> length (inp c) then (Some (take n (inp c)), c\<lparr>inp := drop n (inp c)\<rparr>)
      else (None, c\<lparr>inp := []\<rparr>))"

datatype socks_error =
    ReadHandshakeHeaderFailed
  | UnsupportedSOCKSVersion byte
  | ReadMethodsFailed
  | NoAuthNotOffered
  | WriteFailed
  | ReadRequestHeaderFailed
  | InvalidSOCKSVersion byte
  | UnsupportedCommand byte
  | ReadIPv4Failed
  | ReadDomainLengthFailed
  | ReadDomainFailed
  | ReadIPv6Failed
  | UnsupportedAddrType byte
  | ReadPortFailed

definition Write :: "netconn \<Rightarrow> byte list \<Rightarrow> socks_error option \<times> netconn" where
  "Write c bs =
     (if wr_broken c then (Some WriteFailed, c) else (None, c\<lparr>outp := outp c @ bs\<rparr>))"

subsection \<open>Library functions the SOCKS5 code calls\<close>

text \<open>\<^verbatim>\<open>binary.BigEndian.Uint16\<close> and \<^verbatim>\<open>PutUint16\<close>.\<close>

definition Uint16 :: "byte list \<Rightarrow> 16 word" where
  "Uint16 b = ucast (b ! 1) OR push_bit 8 (ucast (b ! 0))"

definition PutUint16 :: "16 word \<Rightarrow> byte list" where
  "PutUint16 v = [ucast (drop_bit 8 v), ucast v]"

text \<open>The verb \<^verbatim>\<open>%d\<close> on an unsigned value: its decimal digits.\<close>

definition digit :: "nat \<Rightarrow> char" where
  "digit n = ''0123456789'' ! n"

function decimal :: "nat \<Rightarrow> string" where
  "decimal n = (if n < 10 then [digit n] else decimal (n div 10) @ [digit (n mod 10)])"
  by pat_completeness auto
termination
  by (relation "measure (\<lambda>n. n)") auto

declare decimal.simps [simp del]

text \<open>
  \<^verbatim>\<open>net.IP.To4\<close>: four bytes are an IPv4 address; sixteen bytes are one when
  they are IPv4-mapped (ten zero bytes, then \<open>ff ff\<close>); anything else gives nil.
\<close>

definition To4 :: "byte list \<Rightarrow> byte list option" where
  "To4 ip =
     (if length ip = 4 then Some ip
      else if length ip = 16 \<and> take 10 ip = replicate 10 0 \<and> ip ! 10 = 0xff \<and> ip ! 11 = 0xff
      then Some (drop 12 ip)
      else None)"

definition dotted :: "byte list \<Rightarrow> string" where
  "dotted p = decimal (unat (p ! 0)) @ ''.'' @ decimal (unat (p ! 1)) @ ''.''
                @ decimal (unat (p ! 2)) @ ''.'' @ decimal (unat (p ! 3))"

text \<open>
  The text form of an IPv6 address as Go's standard library prints it (package
  \<^verbatim>\<open>net/netip\<close>, outside the repository; the form of RFC 5952): the sixteen
  bytes are eight 16-bit groups, each printed in lower-case hexadecimal without
  leading zeros and separated by colons; the leftmost longest run of two or more
  zero groups is replaced by \<open>::\<close>.
\<close>

definition hexdigit :: "nat \<Rightarrow> char" where
  "hexdigit n = ''0123456789abcdef'' ! n"

function appendHex :: "nat \<Rightarrow> string" where
  "appendHex n = (if n < 16 then [hexdigit n] else appendHex (n div 16) @ [hexdigit (n mod 16)])"
  by pat_completeness auto
termination
  by (relation "measure (\<lambda>n. n)") auto

declare appendHex.simps [simp del]

definition v6u16 :: "byte list \<Rightarrow> nat \<Rightarrow> nat" where
  "v6u16 ip i = 256 * unat (ip ! (2 * i)) + unat (ip ! (2 * i + 1))"

definition zero_run :: "nat list \<Rightarrow> nat \<Rightarrow> nat" where
  "zero_run gs i = length (takeWhile (\<lambda>g. g = 0) (drop i gs))"

text \<open>
  \<^verbatim>\<open>zeroStart, zeroEnd := 255, 255; for i := 0; i < 8; i++ { j := i; for j < 8 &&
  v6u16(j) == 0 { j++ }; if l := j - i; l >= 2 && l > zeroEnd-zeroStart { zeroStart,
  zeroEnd = i, j } }\<close>
\<close>

definition longest_zero_run :: "nat list \<Rightarrow> nat \<times> nat" where
  "longest_zero_run gs =
     foldl (\<lambda>(zeroStart, zeroEnd) i.
              let l = zero_run gs i
              in if 2 \<le> l \<and> zeroEnd - zeroStart < l then (i, i + l)
                 else (zeroStart, zeroEnd))
           (255, 255) [0..<8]"

fun join_colon :: "string list \<Rightarrow> string" where
  "join_colon [] = []"
| "join_colon [g] = g"
| "join_colon (g # gs) = g @ '':'' @ join_colon gs"

definition v6text :: "byte list \<Rightarrow> string" where
  "v6text ip =
     (let gs = map (v6u16 ip) [0..<8];
          (zeroStart, zeroEnd) = longest_zero_run gs
      in if zeroStart < 8
         then join_colon (map appendHex (take zeroStart gs)) @ ''::''
                @ join_colon (map appendHex (drop zeroEnd gs))
         else join_colon (map appendHex gs))"

text \<open>
  \<^verbatim>\<open>net.IP.String\<close> on a slice of 4 or 16 bytes, the only ones the request
  reader passes: dotted decimal when \<^verbatim>\<open>To4\<close> succeeds (so also for an
  IPv4-mapped address), the IPv6 text form otherwise.
\<close>

definition IP_String :: "byte list \<Rightarrow> string" where
  "IP_String ip = (case To4 ip of Some p4 \<Rightarrow> dotted p4 | None \<Rightarrow> v6text ip)"

text \<open>\<^verbatim>\<open>string(domain)\<close>: the bytes as they are.\<close>

definition string_of_bytes :: "byte list \<Rightarrow> string" where
  "string_of_bytes bs = map (\<lambda>b. char_of (unat b)) bs"

subsection \<open>The SOCKS5 endpoint (DynamicTunnel, remote.go)\<close>

definition socks5Version :: byte where "socks5Version = 0x05"
definition authNone :: byte where "authNone = 0x00"
definition authNoAccept :: byte where "authNoAccept = 0xFF"
definition cmdConnect :: byte where "cmdConnect = 0x01"
definition addrTypeIPv4 :: byte where "addrTypeIPv4 = 0x01"
definition addrTypeDomain :: byte where "addrTypeDomain = 0x03"
definition addrTypeIPv6 :: byte where "addrTypeIPv6 = 0x04"
definition repSuccess :: byte where "repSuccess = 0x00"
definition repHostUnreach :: byte where "repHostUnreach = 0x04"
definition repCmdNotSupported :: byte where "repCmdNotSupported = 0x07"
definition repAddrNotSupported :: byte where "repAddrNotSupported = 0x08"

lemmas socks_consts =
  socks5Version_def authNone_def authNoAccept_def cmdConnect_def
  addrTypeIPv4_def addrTypeDomain_def addrTypeIPv6_def
  repSuccess_def repHostUnreach_def repCmdNotSupported_def repAddrNotSupported_def

text \<open>
  \<^verbatim>\<open>for _, m := range methods { if m == authNone { hasNoAuth = true; break } }\<close>
\<close>

fun hasNoAuth :: "byte list \<Rightarrow> bool" where
  "hasNoAuth [] = False"
| "hasNoAuth (m # methods) = (if m = authNone then True else hasNoAuth methods)"

definition handshake :: "netconn \<Rightarrow> socks_error option \<times> netconn" where
  "handshake c =
     (case ReadFull c 2 of
        (None, c1) \<Rightarrow> (Some ReadHandshakeHeaderFailed, c1)
      | (Some header, c1) \<Rightarrow>
          if header ! 0 \<noteq> socks5Version then (Some (UnsupportedSOCKSVersion (header ! 0)), c1)
          else
            (case ReadFull c1 (unat (header ! 1)) of
               (None, c2) \<Rightarrow> (Some ReadMethodsFailed, c2)
             | (Some methods, c2) \<Rightarrow>
                 if \<not> hasNoAuth methods
                 then (Some NoAuthNotOffered, snd (Write c2 [socks5Version, authNoAccept]))
                 else Write c2 [socks5Version, authNone]))"

text \<open>
  \<^verbatim>\<open>sendReply\<close>: the local \<^verbatim>\<open>reply\<close> as a function of its own, then the write,
  whose error the source drops. A nil \<^verbatim>\<open>addr\<close> is \<open>None\<close>; \<^verbatim>\<open>uint16(addr.Port)\<close>
  keeps the low 16 bits.
\<close>

definition reply_bytes :: "byte \<Rightarrow> TCPAddr option \<Rightarrow> byte list" where
  "reply_bytes rep addr =
     [socks5Version, rep, 0x00, addrTypeIPv4] @
     (case addr of
        None \<Rightarrow> [0, 0, 0, 0, 0, 0]
      | Some a \<Rightarrow>
          (case IP a of
             Some addr_IP \<Rightarrow>
               (case To4 addr_IP of Some ip \<Rightarrow> ip | None \<Rightarrow> [0, 0, 0, 0])
                 @ PutUint16 (word_of_int (Port a))
           | None \<Rightarrow> [0, 0, 0, 0, 0, 0]))"

definition sendReply :: "netconn \<Rightarrow> byte \<Rightarrow> TCPAddr option \<Rightarrow> netconn" where
  "sendReply c rep addr = snd (Write c (reply_bytes rep addr))"

text \<open>The \<^verbatim>\<open>switch addrType\<close> of \<^verbatim>\<open>readRequest\<close>.\<close>

definition read_host :: "byte \<Rightarrow> netconn \<Rightarrow> (socks_error + string) \<times> netconn" where
  "read_host addrType c =
     (if addrType = addrTypeIPv4 then
        (case ReadFull c 4 of
           (None, c1) \<Rightarrow> (Inl ReadIPv4Failed, c1)
         | (Some addr, c1) \<Rightarrow> (Inr (IP_String addr), c1))
      else if addrType = addrTypeDomain then
        (case ReadFull c 1 of
           (None, c1) \<Rightarrow> (Inl ReadDomainLengthFailed, c1)
         | (Some lenBuf, c1) \<Rightarrow>
             (case ReadFull c1 (unat (lenBuf ! 0)) of
                (None, c2) \<Rightarrow> (Inl ReadDomainFailed, c2)
              | (Some domain, c2) \<Rightarrow> (Inr (string_of_bytes domain), c2)))
      else if addrType = addrTypeIPv6 then
        (case ReadFull c 16 of
           (None, c1) \<Rightarrow> (Inl ReadIPv6Failed, c1)
         | (Some addr, c1) \<Rightarrow> (Inr (IP_String addr), c1))
      else (Inl (UnsupportedAddrType addrType), sendReply c repAddrNotSupported None))"

definition readRequest :: "netconn \<Rightarrow> (socks_error + string) \<times> netconn" where
  "readRequest c =
     (case ReadFull c 4 of
        (None, c1) \<Rightarrow> (Inl ReadRequestHeaderFailed, c1)
      | (Some header, c1) \<Rightarrow>
          if header ! 0 \<noteq> socks5Version then (Inl (InvalidSOCKSVersion (header ! 0)), c1)
          else if header ! 1 \<noteq> cmdConnect
          then (Inl (UnsupportedCommand (header ! 1)), sendReply c1 repCmdNotSupported None)
          else
            (case read_host (header ! 3) c1 of
               (Inl err, c2) \<Rightarrow> (Inl err, c2)
             | (Inr host, c2) \<Rightarrow>
                 (case ReadFull c2 2 of
                    (None, c3) \<Rightarrow> (Inl ReadPortFailed, c3)
                  | (Some portBuf, c3) \<Rightarrow>
                      (Inr (host @ '':'' @ decimal (unat (Uint16 portBuf))), c3))))"

text \<open>
  \<^verbatim>\<open>handleConnection\<close> up to the start of the relay: how the connection was
  handled, and the connection with everything written to it.
\<close>

datatype handled =
    HandshakeFailed socks_error
  | RequestFailed socks_error
  | DialFailed client_error
  | Relaying string nat

definition handleConnection :: "'cfg Client \<Rightarrow> netconn \<Rightarrow> handled \<times> netconn" where
  "handleConnection client c =
     (case handshake c of
        (Some err, c1) \<Rightarrow> (HandshakeFailed err, c1)
      | (None, c1) \<Rightarrow>
          (case readRequest c1 of
             (Inl err, c2) \<Rightarrow> (RequestFailed err, c2)
           | (Inr targetAddr, c2) \<Rightarrow>
               (case fst (Dial client ''tcp'' targetAddr) of
                  Inl err \<Rightarrow> (DialFailed err, sendReply c2 repHostUnreach None)
                | Inr remoteConn \<Rightarrow>
                    (Relaying targetAddr remoteConn,
                     sendReply c2 repSuccess (Some (LocalAddr c2))))))"

subsection \<open>The relay (bidirectionalCopy, local.go)\<close>

text \<open>
  The dynamic type of a \<^verbatim>\<open>net.Conn\<close>, as the type assertion
  \<^verbatim>\<open>dst.(*net.TCPConn)\<close> sees it: a TCP connection, or anything else (the
  connections that the SSH client's \<^verbatim>\<open>Dial\<close> and remote listener hand out are
  channel connections of the SSH library).
\<close>

datatype conn_kind = TCPConn | OtherConn

text \<open>What \<^verbatim>\<open>io.Copy\<close> can return besides nil, as \<^verbatim>\<open>isClosedError\<close> tells them apart.\<close>

datatype copy_error = EOF | ErrClosed | OtherError string

definition isClosedError :: "copy_error option \<Rightarrow> bool" where
  "isClosedError err =
     (case err of None \<Rightarrow> False | Some e \<Rightarrow> e = EOF \<or> e = ErrClosed)"

datatype side = Conn1 | Conn2

text \<open>
  The state of one call of \<^verbatim>\<open>bidirectionalCopy(ctx, conn1, conn2)\<close>: the types
  of the two connections, the \<^verbatim>\<open>WaitGroup\<close> counter, which copy goroutines have
  finished (by destination), on which connections \<^verbatim>\<open>CloseWrite\<close> was called, the
  errors given to the log, whether the channel \<^verbatim>\<open>done\<close> is closed, whether the
  context is cancelled, and whether the call has returned.
\<close>

record relay =
  kind1 :: conn_kind
  kind2 :: conn_kind
  wg :: nat
  finished1 :: bool
  finished2 :: bool
  wclosed1 :: bool
  wclosed2 :: bool
  logged :: "copy_error list"
  done_closed :: bool
  ctx_done :: bool
  returned :: bool

text \<open>\<^verbatim>\<open>wg.Add(2)\<close> and the three \<^verbatim>\<open>go\<close> statements: nothing has happened yet.\<close>

definition relay_start :: "conn_kind \<Rightarrow> conn_kind \<Rightarrow> relay" where
  "relay_start k1 k2 =
     \<lparr>kind1 = k1, kind2 = k2, wg = 2, finished1 = False, finished2 = False,
      wclosed1 = False, wclosed2 = False, logged = [], done_closed = False,
      ctx_done = False, returned = False\<rparr>"

text \<open>
  \<^verbatim>\<open>copyFunc(dst, src)\<close> from the return of \<^verbatim>\<open>io.Copy\<close> with \<open>err\<close> to its end:
  the error is logged unless it is nil or a closed error; \<^verbatim>\<open>CloseWrite\<close> is called
  when \<open>dst\<close> is a \<^verbatim>\<open>*net.TCPConn\<close>; \<^verbatim>\<open>wg.Done()\<close> runs last (deferred).
\<close>

definition copyFunc :: "side \<Rightarrow> copy_error option \<Rightarrow> relay \<Rightarrow> relay" where
  "copyFunc dst err s =
     (let s1 = (case err of
                  Some e \<Rightarrow> if \<not> isClosedError err then s\<lparr>logged := logged s @ [e]\<rparr> else s
                | None \<Rightarrow> s);
          s2 = (case dst of
                  Conn1 \<Rightarrow> if kind1 s1 = TCPConn then s1\<lparr>wclosed1 := True\<rparr> else s1
                | Conn2 \<Rightarrow> if kind2 s1 = TCPConn then s1\<lparr>wclosed2 := True\<rparr> else s1)
      in (case dst of
            Conn1 \<Rightarrow> s2\<lparr>finished1 := True, wg := wg s2 - 1\<rparr>
          | Conn2 \<Rightarrow> s2\<lparr>finished2 := True, wg := wg s2 - 1\<rparr>))"

text \<open>
  What can happen next: the copy towards one side drains (\<^verbatim>\<open>io.Copy\<close> returns,
  with an error or nil); the waiting goroutine gets through \<^verbatim>\<open>wg.Wait()\<close> and
  closes \<^verbatim>\<open>done\<close>; the caller's context is cancelled; the \<^verbatim>\<open>select\<close> of
  \<^verbatim>\<open>bidirectionalCopy\<close> takes a ready case and the call returns.
\<close>

datatype relay_event =
    Drained side "copy_error option"
  | WaitReturns
  | Cancelled
  | Returns

text \<open>One step; \<open>None\<close> when the event cannot happen in the state.\<close>

fun relay_step :: "relay \<Rightarrow> relay_event \<Rightarrow> relay option" where
  "relay_step s (Drained Conn1 err) =
     (if finished1 s then None else Some (copyFunc Conn1 err s))"
| "relay_step s (Drained Conn2 err) =
     (if finished2 s then None else Some (copyFunc Conn2 err s))"
| "relay_step s WaitReturns =
     (if wg s = 0 \<and> \<not> done_closed s then Some (s\<lparr>done_closed := True\<rparr>) else None)"
| "relay_step s Cancelled = Some (s\<lparr>ctx_done := True\<rparr>)"
| "relay_step s Returns =
     (if \<not> returned s \<and> (ctx_done s \<or> done_closed s) then Some (s\<lparr>returned := True\<rparr>)
      else None)"

fun relay_run :: "relay \<Rightarrow> relay_event list \<Rightarrow> relay option" where
  "relay_run s [] = Some s"
| "relay_run s (e # es) =
     (case relay_step s e of None \<Rightarrow> None | Some s' \<Rightarrow> relay_run s' es)"

text \<open>What holds of every state a run reaches.\<close>

definition relay_inv :: "relay \<Rightarrow> bool" where
  "relay_inv s =
     (wg s = (if finished1 s then 0 else 1) + (if finished2 s then 0 else 1)
      \<and> (if done_closed s then wg s = 0 else True)
      \<and> (if returned s then ctx_done s \<or> done_closed s else True))"

section \<open>Theorems\<close>

subsection \<open>Backoff\<close>

lemma backoff_loop_closed:
  "1 \<le> i \<Longrightarrow> i \<le> 6 \<Longrightarrow>
   backoff_loop i attempt b = b * 2 ^ nat (min (attempt - 1) 5 - min (i - 1) 5)"
proof (induction i attempt b rule: backoff_loop.induct)
  case (1 i attempt b)
  show ?case
  proof (cases "i < attempt \<and> i < 6")
    case True
    then have ih: "backoff_loop (i + 1) attempt (b * 2) =
        (b * 2) * 2 ^ nat (min (attempt - 1) 5 - min (i + 1 - 1) 5)"
      using "1.IH" "1.prems" by simp
    have e: "nat (min (attempt - 1) 5 - min (i - 1) 5) =
             Suc (nat (min (attempt - 1) 5 - min (i + 1 - 1) 5))"
      using True "1.prems" by (auto simp: min_def)
    have "backoff_loop i attempt b = backoff_loop (i + 1) attempt (b * 2)"
      using True by (simp add: backoff_loop.simps [of i])
    then show ?thesis
      by (simp only: ih e power_Suc mult.assoc)
  next
    case False
    then have "backoff_loop i attempt b = b"
      by (auto simp: backoff_loop.simps [of i])
    moreover have "min (attempt - 1) 5 - min (i - 1) 5 \<le> 0"
      using False "1.prems" by (auto simp: min_def)
    ultimately show ?thesis by simp
  qed
qed

lemma calculateBackoff_word:
  "1 \<le> n \<Longrightarrow> calculateBackoff n b =
     (if 60 * second <s b * 2 ^ nat (min (n - 1) 5) then 60 * second
      else b * 2 ^ nat (min (n - 1) 5))"
  by (simp add: calculateBackoff_def backoff_loop_closed Let_def)

lemma sint_scaled:
  fixes b :: duration
  assumes "- (2 ^ 63) \<le> sint b * 2 ^ k" and "sint b * 2 ^ k < 2 ^ 63"
  shows "sint (b * 2 ^ k) = sint b * 2 ^ k"
proof -
  have "b * 2 ^ k = word_of_int (sint b * 2 ^ k)" by simp
  then have "sint (b * 2 ^ k) = signed_take_bit 63 (sint b * 2 ^ k)"
    by (simp only: sint_sbintrunc') simp
  then show ?thesis
    using assms by (simp add: signed_take_bit_int_eq_self)
qed

text \<open>
  Claim C1 (amended). For every attempt \<open>n \<ge> 1\<close> and every base interval \<open>b\<close> whose
  scaled value \<open>b * 2^(min(n-1, 5))\<close> fits the signed 64-bit nanosecond count of
  \<^verbatim>\<open>time.Duration\<close>, the backoff delay is \<open>min(b * 2^(min(n-1, 5)), 60 s)\<close>;
  for \<open>b = 5 s\<close> the delays of attempts 1 to 7 are 5, 10, 20, 40, 60, 60, 60 seconds.
\<close>

theorem calculateBackoff_capped_exponential:
  "(1 \<le> n \<and> - (2 ^ 63) \<le> sint b * 2 ^ nat (min (n - 1) 5)
        \<and> sint b * 2 ^ nat (min (n - 1) 5) < 2 ^ 63
     \<longrightarrow> sint (calculateBackoff n b) = min (sint b * 2 ^ nat (min (n - 1) 5)) 60000000000)
   \<and> map (\<lambda>n. sint (calculateBackoff n (5 * second))) [1, 2, 3, 4, 5, 6, 7] =
       [5000000000, 10000000000, 20000000000, 40000000000,
        60000000000, 60000000000, 60000000000]"
proof -
  have m: "sint (60 * second :: duration) = 60000000000" by (simp add: second_def)
  have a: "sint (calculateBackoff n b) = min (sint b * 2 ^ nat (min (n - 1) 5)) 60000000000"
    if "1 \<le> n" "- (2 ^ 63) \<le> sint b * 2 ^ nat (min (n - 1) 5)"
       "sint b * 2 ^ nat (min (n - 1) 5) < 2 ^ 63"
    using that by (simp add: calculateBackoff_word word_sless_alt sint_scaled m min_def)
  have s: "map (\<lambda>n. sint (calculateBackoff n (5 * second))) [1, 2, 3, 4, 5, 6, 7] =
       [5000000000, 10000000000, 20000000000, 40000000000,
        60000000000, 60000000000, 60000000000]"
    by (simp add: calculateBackoff_word second_def word_sless_alt)
  show ?thesis using a s by blast
qed

text \<open>The theorem at attempt 3 with the default interval of 5 seconds: 20 seconds.\<close>

theorem calculateBackoff_capped_exponential_witness:
  "1 \<le> (3 :: int)
   \<and> - (2 ^ 63) \<le> sint (5 * second) * 2 ^ nat (min (3 - 1) 5)
   \<and> sint (5 * second) * 2 ^ nat (min (3 - 1) 5) < 2 ^ 63
   \<and> sint (calculateBackoff 3 (5 * second)) = 20000000000"
proof -
  have h: "1 \<le> (3 :: int)
     \<and> - (2 ^ 63) \<le> sint (5 * second) * 2 ^ nat (min (3 - 1) 5)
     \<and> sint (5 * second) * 2 ^ nat (min (3 - 1) 5) < 2 ^ 63"
    by (simp add: second_def)
  have v: "min (sint (5 * second) * 2 ^ nat (min (3 - 1) 5)) 60000000000 = (20000000000 :: int)"
    by (simp add: second_def)
  from calculateBackoff_capped_exponential [of 3 "5 * second"] h
  have "sint (calculateBackoff 3 (5 * second))
          = min (sint (5 * second) * 2 ^ nat (min (3 - 1) 5)) 60000000000"
    by blast
  with h v show ?thesis by simp
qed

text \<open>
  The claim as stated, for every base interval, fails where the doubling leaves
  int64: with \<open>b = 2^58\<close> ns (about 9.1 years) the sixth attempt computes
  \<open>b * 32 = 2^63\<close>, which wraps to \<open>-2^63\<close>; that is not above the ceiling, so the
  negative value is returned, while \<open>min(b * 2^5, 60 s)\<close> is 60 s.
\<close>

theorem calculateBackoff_overflow_counterexample:
  "sint (calculateBackoff 6 288230376151711744) = - 9223372036854775808
   \<and> min (sint (288230376151711744 :: duration) * 2 ^ nat (min (6 - 1) 5)) 60000000000
       = (60000000000 :: int)"
  by (simp add: calculateBackoff_word second_def word_sless_alt)

subsection \<open>Forward-spec parsing\<close>

lemma split_colon_not_Nil: "split_colon s \<noteq> []"
  by (induction s) (auto split: list.splits)






lemma split_colon_has_colon:
  "CHR '':'' \<in> set s \<Longrightarrow> 2 \<le> length (split_colon s)"
proof (induction s)
  case Nil
  then show ?case by simp
next
  case (Cons c s)
  have ne: "split_colon s \<noteq> []" by (rule split_colon_not_Nil)
  show ?case
  proof (cases "c = CHR '':''")
    case True
    then show ?thesis using ne by (cases "split_colon s") auto
  next
    case False
    with Cons have "2 \<le> length (split_colon s)" by simp
    then show ?thesis using False by (cases "split_colon s") auto
  qed
qed


lemma any_colon_free: "CHR '':'' \<notin> set ''0.0.0.0''"
  by simp

text \<open>
  Claim C6. Forward-spec parsing is a function of the input string with these
  values: the shorthand \<open>8080:localhost:80\<close> gives target \<open>localhost:80\<close> for a
  local and for a remote forward, with bind \<open>127.0.0.1:8080\<close> for the local one
  (the remote one binds \<open>0.0.0.0:8080\<close>); \<open>0.0.0.0:9090:localhost:22\<close> gives bind
  \<open>0.0.0.0:9090\<close> and target \<open>localhost:22\<close>, local and remote; dynamic \<open>1080\<close>
  gives bind \<open>127.0.0.1:1080\<close>; dynamic \<open>10.0.0.1:1080\<close> is kept unchanged.
\<close>

theorem forward_parsing_examples:
  "ParseLocalForward ''8080:localhost:80'' =
     Inr \<lparr>lt_Bind = ''127.0.0.1:8080'', lt_Target = ''localhost:80''\<rparr>
   \<and> ParseRemoteForward ''8080:localhost:80'' =
     Inr \<lparr>rt_Bind = ''0.0.0.0:8080'', rt_Target = ''localhost:80''\<rparr>
   \<and> ParseLocalForward ''0.0.0.0:9090:localhost:22'' =
     Inr \<lparr>lt_Bind = ''0.0.0.0:9090'', lt_Target = ''localhost:22''\<rparr>
   \<and> ParseRemoteForward ''0.0.0.0:9090:localhost:22'' =
     Inr \<lparr>rt_Bind = ''0.0.0.0:9090'', rt_Target = ''localhost:22''\<rparr>
   \<and> ParseDynamicForward ''1080'' = Inr \<lparr>dt_Bind = ''127.0.0.1:1080''\<rparr>
   \<and> ParseDynamicForward ''10.0.0.1:1080'' = Inr \<lparr>dt_Bind = ''10.0.0.1:1080''\<rparr>"
  by (simp add: ParseLocalForward_def ParseRemoteForward_def ParseDynamicForward_def)








subsection \<open>Monitor loop\<close>

lemma emit_emit: "emit as (emit bs r) = emit (as @ bs) r"
  by (cases r) (simp add: emit_def)

lemma emit_tuple: "emit as (out, rc, tr) = (out, rc, as @ tr)"
  by (simp add: emit_def)

lemma backoff_trace_step:
  "i \<le> j \<Longrightarrow> backoff_trace cfg i j =
     [AConnect, ABackoff (calculateBackoff i (Interval cfg))] @ backoff_trace cfg (i + 1) j"
  by (simp add: backoff_trace_def upto_rec1)

lemma backoff_trace_empty: "j < i \<Longrightarrow> backoff_trace cfg i j = []"
  by (simp add: backoff_trace_def)

lemma Start_loop_failures:
  "Enabled cfg \<Longrightarrow> MaxRetries cfg \<le> 0 \<or> rc + int (length es) < MaxRetries cfg \<Longrightarrow>
   Start_loop cfg rc (failures es @ rest) =
     emit (backoff_trace cfg (rc + 1) (rc + int (length es)))
       (Start_loop cfg (rc + int (length es)) rest)"
proof (induction es arbitrary: rc)
  case Nil
  show ?case by (cases "Start_loop cfg rc rest") (simp add: failures_def backoff_trace_empty emit_def)
next
  case (Cons e es)
  have step: "Start_loop cfg rc (failures (e # es) @ rest) =
      emit [AConnect, ABackoff (calculateBackoff (rc + 1) (Interval cfg))]
        (Start_loop cfg (rc + 1) (failures es @ rest))"
    using Cons.prems by (auto simp: failures_def Let_def)
  have ih: "Start_loop cfg (rc + 1) (failures es @ rest) =
      emit (backoff_trace cfg (rc + 1 + 1) (rc + 1 + int (length es)))
        (Start_loop cfg (rc + 1 + int (length es)) rest)"
    using Cons.prems by (intro Cons.IH) auto
  have len: "rc + int (length (e # es)) = rc + 1 + int (length es)" by simp
  have tr: "backoff_trace cfg (rc + 1) (rc + 1 + int (length es)) =
      [AConnect, ABackoff (calculateBackoff (rc + 1) (Interval cfg))]
        @ backoff_trace cfg (rc + 1 + 1) (rc + 1 + int (length es))"
    by (rule backoff_trace_step) simp
  show ?case
    unfolding len step ih emit_emit tr ..
qed


text \<open>
  Claim C2. Starting from \<open>retryCount = 0\<close> with reconnection enabled and
  \<open>maxRetries = m > 0\<close>, the loop returns the connect error exactly at the \<open>m\<close>-th
  consecutive connect failure, after \<open>m - 1\<close> backoff waits and without entering
  another one (fewer failures leave it running); with reconnection disabled the
  first connect failure returns its error; and every successful connect puts
  \<open>retryCount\<close> back to 0, whether the tunnels then fail to start or the
  keepalive fails later.
\<close>

theorem Monitor_Start_retry_budget:
  "(Enabled cfg \<and> 0 < MaxRetries cfg \<and> int (length es) + 1 = MaxRetries cfg \<longrightarrow>
      Monitor_Start cfg (failures es @ ConnectFails err stop # rest)
        = (Returned (Some err), MaxRetries cfg,
           backoff_trace cfg 1 (MaxRetries cfg - 1) @ [AConnect]))
   \<and> (Enabled cfg \<and> int (length es) < MaxRetries cfg \<longrightarrow>
      Monitor_Start cfg (failures es)
        = (Running, int (length es), backoff_trace cfg 1 (int (length es))))
   \<and> (\<not> Enabled cfg \<longrightarrow>
      Start_loop cfg rc (ConnectFails err stop # rest) = (Returned (Some err), rc, [AConnect]))
   \<and> Start_loop cfg rc (TunnelStartFails err # rest)
        = emit [AConnect, ATunnelStart, AClientClose] (Start_loop cfg 0 rest)
   \<and> (Enabled cfg \<longrightarrow>
      Start_loop cfg rc (KeepAliveFails err # rest)
        = emit [AConnect, ATunnelStart, AStartKeepAlive, ATunnelStop, AClientClose]
            (Start_loop cfg 0 rest))"
proof (intro conjI impI)
  assume h: "Enabled cfg \<and> 0 < MaxRetries cfg \<and> int (length es) + 1 = MaxRetries cfg"
  then have "Start_loop cfg 0 (failures es @ ConnectFails err stop # rest) =
      emit (backoff_trace cfg (0 + 1) (0 + int (length es)))
        (Start_loop cfg (0 + int (length es)) (ConnectFails err stop # rest))"
    by (intro Start_loop_failures) auto
  moreover have "Start_loop cfg (0 + int (length es)) (ConnectFails err stop # rest)
      = (Returned (Some err), MaxRetries cfg, [AConnect])"
    using h by (auto simp: Let_def)
  moreover have "0 + int (length es) = MaxRetries cfg - 1" using h by simp
  ultimately show "Monitor_Start cfg (failures es @ ConnectFails err stop # rest)
        = (Returned (Some err), MaxRetries cfg,
           backoff_trace cfg 1 (MaxRetries cfg - 1) @ [AConnect])"
    by (simp add: Monitor_Start_def emit_tuple)
next
  assume h: "Enabled cfg \<and> int (length es) < MaxRetries cfg"
  then have "Start_loop cfg 0 (failures es @ []) =
      emit (backoff_trace cfg (0 + 1) (0 + int (length es)))
        (Start_loop cfg (0 + int (length es)) [])"
    by (intro Start_loop_failures) auto
  then show "Monitor_Start cfg (failures es)
        = (Running, int (length es), backoff_trace cfg 1 (int (length es)))"
    by (simp add: Monitor_Start_def emit_tuple)
next
  assume "\<not> Enabled cfg"
  then show "Start_loop cfg rc (ConnectFails err stop # rest)
      = (Returned (Some err), rc, [AConnect])"
    by simp
next
  show "Start_loop cfg rc (TunnelStartFails err # rest)
        = emit [AConnect, ATunnelStart, AClientClose] (Start_loop cfg 0 rest)"
    by simp
next
  assume "Enabled cfg"
  then show "Start_loop cfg rc (KeepAliveFails err # rest)
        = emit [AConnect, ATunnelStart, AStartKeepAlive, ATunnelStop, AClientClose]
            (Start_loop cfg 0 rest)"
    by simp
qed

text \<open>
  The theorem with a budget of three and the default interval: the third failure
  returns its error after two waits; two failures leave the loop running; with
  reconnection disabled the first failure returns; a keepalive failure after two
  failed attempts restarts the count.
\<close>

theorem Monitor_Start_retry_budget_witness:
  "Monitor_Start \<lparr>Enabled = True, Interval = 5 * second, MaxRetries = 3\<rparr>
      [ConnectFails ''refused'' False, ConnectFails ''reset'' False,
       ConnectFails ''timeout'' False, ConnectFails ''late'' False]
     = (Returned (Some ''timeout''), 3,
        [AConnect, ABackoff 5000000000, AConnect, ABackoff 10000000000, AConnect])
   \<and> Monitor_Start \<lparr>Enabled = True, Interval = 5 * second, MaxRetries = 3\<rparr>
      [ConnectFails ''refused'' False, ConnectFails ''reset'' False]
     = (Running, 2, [AConnect, ABackoff 5000000000, AConnect, ABackoff 10000000000])
   \<and> Start_loop \<lparr>Enabled = False, Interval = 5 * second, MaxRetries = 3\<rparr> 0
      [ConnectFails ''refused'' False, ConnectFails ''reset'' False]
     = (Returned (Some ''refused''), 0, [AConnect])
   \<and> Start_loop \<lparr>Enabled = True, Interval = 5 * second, MaxRetries = 3\<rparr> 2
      [KeepAliveFails ''dropped'', ConnectFails ''late'' False]
     = (Running, 1,
        [AConnect, ATunnelStart, AStartKeepAlive, ATunnelStop, AClientClose,
         AConnect, ABackoff 5000000000])"
proof -
  let ?on = "\<lparr>Enabled = True, Interval = 5 * second, MaxRetries = 3\<rparr>"
  let ?off = "\<lparr>Enabled = False, Interval = 5 * second, MaxRetries = 3\<rparr>"
  have tr: "backoff_trace ?on 1 2 = [AConnect, ABackoff 5000000000, AConnect, ABackoff 10000000000]"
    by (simp add: backoff_trace_step backoff_trace_empty calculateBackoff_word second_def
          word_sless_alt)
  have on: "Enabled ?on \<and> 0 < MaxRetries ?on
              \<and> int (length [''refused'', ''reset'']) + 1 = MaxRetries ?on"
    "Enabled ?on \<and> int (length [''refused'', ''reset'']) < MaxRetries ?on"
    by simp_all
  have off: "\<not> Enabled ?off" by simp
  from Monitor_Start_retry_budget
         [of ?on "[''refused'', ''reset'']" "''timeout''" False "[ConnectFails ''late'' False]"]
       on tr
  have a: "Monitor_Start ?on
         (failures [''refused'', ''reset'']
            @ [ConnectFails ''timeout'' False, ConnectFails ''late'' False])
       = (Returned (Some ''timeout''), 3,
          [AConnect, ABackoff 5000000000, AConnect, ABackoff 10000000000, AConnect])"
    and b: "Monitor_Start ?on (failures [''refused'', ''reset''])
       = (Running, 2, [AConnect, ABackoff 5000000000, AConnect, ABackoff 10000000000])"
    by simp_all
  from Monitor_Start_retry_budget
         [of ?off "[]" "''refused''" False "[ConnectFails ''reset'' False]" 0] off
  have c: "Start_loop ?off 0 [ConnectFails ''refused'' False, ConnectFails ''reset'' False]
       = (Returned (Some ''refused''), 0, [AConnect])"
    by blast
  have w: "calculateBackoff 1 (5 * second) = 5000000000"
    by (simp add: calculateBackoff_word second_def word_sless_alt)
  from Monitor_Start_retry_budget
         [of ?on "[]" "''dropped''" False "[ConnectFails ''late'' False]" 2]
  have "Start_loop ?on 2 [KeepAliveFails ''dropped'', ConnectFails ''late'' False]
       = emit [AConnect, ATunnelStart, AStartKeepAlive, ATunnelStop, AClientClose]
           (Start_loop ?on 0 [ConnectFails ''late'' False])"
    by simp
  then have d: "Start_loop ?on 2 [KeepAliveFails ''dropped'', ConnectFails ''late'' False]
       = (Running, 1,
          [AConnect, ATunnelStart, AStartKeepAlive, ATunnelStop, AClientClose,
           AConnect, ABackoff 5000000000])"
    by (simp add: emit_tuple w)
  from a b c d show ?thesis by (simp add: failures_def)
qed

subsection \<open>Bytes, ports and addresses\<close>

lemma byte_bit_high: "\<not> bit (unat (b :: byte)) n" if "8 \<le> n"
proof -
  have "unat b < 2 ^ 8" using unsigned_less [of b, where ?'a = nat] by simp
  then have "take_bit 8 (unat b) = unat b" by (simp add: take_bit_nat_eq_self)
  then have "bit (unat b) n = bit (take_bit 8 (unat b)) n" by simp
  then show ?thesis using that by (simp add: bit_take_bit_iff)
qed

lemma Uint16_value: "unat (Uint16 [hi, lo]) = 256 * unat hi + unat lo"
proof -
  have h: "unat hi < 2 ^ 8" and l: "unat lo < 2 ^ 8"
    using unsigned_less [of hi, where ?'a = nat] unsigned_less [of lo, where ?'a = nat]
    by simp_all
  have p: "push_bit 8 (unat hi) < 2 ^ 16"
    using h by (simp add: push_bit_eq_mult)
  have "unat (Uint16 [hi, lo]) = unat lo OR push_bit 8 (unat hi)"
    using h l p
    by (simp add: Uint16_def unsigned_or_eq unsigned_ucast_eq unsigned_push_bit_eq
          take_bit_nat_eq_self)
  also have "\<dots> = unat lo + push_bit 8 (unat hi)"
    by (rule disjunctive_add [symmetric]) (auto simp: bit_push_bit_iff byte_bit_high)
  finally show ?thesis by (simp add: push_bit_eq_mult)
qed

lemma PutUint16_value:
  "map unat (PutUint16 v) = [unat v div 256, unat v mod 256]"
proof -
  have v: "unat v < 2 ^ 16" using unsigned_less [of v, where ?'a = nat] by simp
  have a: "unat (ucast (drop_bit 8 v) :: byte) = unat v div 256"
  proof -
    have "unat v div 256 < 2 ^ 8" using v by simp
    then show ?thesis
      using v
      by (simp add: unsigned_ucast_eq drop_bit_eq_div unat_div take_bit_nat_eq_self)
  qed
  have b: "unat (ucast v :: byte) = unat v mod 256"
    by (simp add: unsigned_ucast_eq take_bit_eq_mod)
  show ?thesis by (simp add: PutUint16_def a b)
qed

lemma To4_length: "To4 ip = Some p \<Longrightarrow> length p = 4"
  by (auto simp: To4_def split: if_splits)

subsection \<open>SOCKS5 handshake\<close>

lemma hasNoAuth_iff: "hasNoAuth methods \<longleftrightarrow> authNone \<in> set methods"
  by (induction methods) auto

lemma handshake_header:
  "inp c = ver # n # rest \<Longrightarrow> ReadFull c 2 = (Some [ver, n], c\<lparr>inp := rest\<rparr>)"
  by (simp add: ReadFull_def)

lemma handshake_methods:
  "unat n \<le> length rest \<Longrightarrow>
   ReadFull (c\<lparr>inp := rest\<rparr>) (unat n)
     = (Some (take (unat n) rest), c\<lparr>inp := drop (unat n) rest\<rparr>)"
  by (simp add: ReadFull_def)

lemma handshake_bad_version:
  assumes "inp c = ver # n # rest" and "ver \<noteq> 0x05"
  shows "handshake c = (Some (UnsupportedSOCKSVersion ver), c\<lparr>inp := rest\<rparr>)"
  using assms by (simp add: handshake_def handshake_header socks5Version_def)

lemma handshake_no_method:
  assumes "inp c = 0x05 # n # rest" and "unat n \<le> length rest"
    and "0x00 \<notin> set (take (unat n) rest)" and "\<not> wr_broken c"
  shows "handshake c
      = (Some NoAuthNotOffered,
         c\<lparr>inp := drop (unat n) rest, outp := outp c @ [0x05, 0xFF]\<rparr>)"
proof -
  have r: "ReadFull c 2 = (Some [0x05, n], c\<lparr>inp := rest\<rparr>)"
    using assms(1) by (rule handshake_header)
  have na: "\<not> hasNoAuth (take (unat n) rest)"
    using assms(3) by (simp add: hasNoAuth_iff authNone_def)
  show ?thesis
    using assms(4) na
    by (simp add: handshake_def r handshake_methods [OF assms(2)] socks_consts Write_def)
qed

lemma handshake_accepts:
  assumes "inp c = 0x05 # n # rest" and "unat n \<le> length rest"
    and "0x00 \<in> set (take (unat n) rest)" and "\<not> wr_broken c"
  shows "handshake c
      = (None, c\<lparr>inp := drop (unat n) rest, outp := outp c @ [0x05, 0x00]\<rparr>)"
proof -
  have r: "ReadFull c 2 = (Some [0x05, n], c\<lparr>inp := rest\<rparr>)"
    using assms(1) by (rule handshake_header)
  have na: "hasNoAuth (take (unat n) rest)"
    using assms(3) by (simp add: hasNoAuth_iff authNone_def)
  show ?thesis
    using assms(4) na
    by (simp add: handshake_def r handshake_methods [OF assms(2)] socks_consts Write_def)
qed

lemma handleConnection_handshake_failed:
  "handshake c = (Some err, c1) \<Longrightarrow> handleConnection client c = (HandshakeFailed err, c1)"
  by (simp add: handleConnection_def)

lemma handleConnection_after_handshake:
  "handshake c = (None, c1) \<Longrightarrow>
   handleConnection client c =
     (case readRequest c1 of
        (Inl err, c2) \<Rightarrow> (RequestFailed err, c2)
      | (Inr targetAddr, c2) \<Rightarrow>
          (case fst (Dial client ''tcp'' targetAddr) of
             Inl err \<Rightarrow> (DialFailed err, sendReply c2 repHostUnreach None)
           | Inr remoteConn \<Rightarrow>
               (Relaying targetAddr remoteConn,
                sendReply c2 repSuccess (Some (LocalAddr c2)))))"
  by (simp add: handleConnection_def)

text \<open>
  Claim C3. The handshake reads two bytes (version, method count) and then that
  many method bytes. A version byte other than 0x05 drops the connection with
  nothing written (the methods are not read); when 0x00 is not among the methods,
  exactly \<open>05 FF\<close> is written and the connection is dropped; otherwise exactly
  \<open>05 00\<close> is written and processing continues to the request phase:
  \<^verbatim>\<open>handleConnection\<close> reads the request from the connection as the handshake
  left it. The stream holds the bytes that are read, and the connection takes
  the write.
\<close>

theorem handshake_replies:
  "(inp c = ver # n # rest \<and> ver \<noteq> 0x05 \<longrightarrow>
      handshake c = (Some (UnsupportedSOCKSVersion ver), c\<lparr>inp := rest\<rparr>)
      \<and> handleConnection client c
            = (HandshakeFailed (UnsupportedSOCKSVersion ver), c\<lparr>inp := rest\<rparr>))
   \<and> (inp c = 0x05 # n # rest \<and> unat n \<le> length rest
        \<and> 0x00 \<notin> set (take (unat n) rest) \<and> \<not> wr_broken c \<longrightarrow>
      handshake c
        = (Some NoAuthNotOffered,
           c\<lparr>inp := drop (unat n) rest, outp := outp c @ [0x05, 0xFF]\<rparr>)
      \<and> handleConnection client c
            = (HandshakeFailed NoAuthNotOffered,
               c\<lparr>inp := drop (unat n) rest, outp := outp c @ [0x05, 0xFF]\<rparr>))
   \<and> (inp c = 0x05 # n # rest \<and> unat n \<le> length rest
        \<and> 0x00 \<in> set (take (unat n) rest) \<and> \<not> wr_broken c \<longrightarrow>
      handshake c
        = (None, c\<lparr>inp := drop (unat n) rest, outp := outp c @ [0x05, 0x00]\<rparr>)
      \<and> handleConnection client c
            = (case readRequest (c\<lparr>inp := drop (unat n) rest, outp := outp c @ [0x05, 0x00]\<rparr>) of
                 (Inl err, c2) \<Rightarrow> (RequestFailed err, c2)
               | (Inr targetAddr, c2) \<Rightarrow>
                   (case fst (Dial client ''tcp'' targetAddr) of
                      Inl err \<Rightarrow> (DialFailed err, sendReply c2 repHostUnreach None)
                    | Inr remoteConn \<Rightarrow>
                        (Relaying targetAddr remoteConn,
                         sendReply c2 repSuccess (Some (LocalAddr c2))))))"
proof (intro conjI impI)
  assume h: "inp c = ver # n # rest \<and> ver \<noteq> 0x05"
  then show a: "handshake c = (Some (UnsupportedSOCKSVersion ver), c\<lparr>inp := rest\<rparr>)"
    by (simp add: handshake_bad_version)
  show "handleConnection client c
      = (HandshakeFailed (UnsupportedSOCKSVersion ver), c\<lparr>inp := rest\<rparr>)"
    by (rule handleConnection_handshake_failed [OF a])
next
  assume h: "inp c = 0x05 # n # rest \<and> unat n \<le> length rest
      \<and> 0x00 \<notin> set (take (unat n) rest) \<and> \<not> wr_broken c"
  then show a: "handshake c
      = (Some NoAuthNotOffered,
         c\<lparr>inp := drop (unat n) rest, outp := outp c @ [0x05, 0xFF]\<rparr>)"
    by (simp add: handshake_no_method)
  show "handleConnection client c
      = (HandshakeFailed NoAuthNotOffered,
         c\<lparr>inp := drop (unat n) rest, outp := outp c @ [0x05, 0xFF]\<rparr>)"
    by (rule handleConnection_handshake_failed [OF a])
next
  assume h: "inp c = 0x05 # n # rest \<and> unat n \<le> length rest
      \<and> 0x00 \<in> set (take (unat n) rest) \<and> \<not> wr_broken c"
  then show a: "handshake c
      = (None, c\<lparr>inp := drop (unat n) rest, outp := outp c @ [0x05, 0x00]\<rparr>)"
    by (simp add: handshake_accepts)
  show "handleConnection client c
      = (case readRequest (c\<lparr>inp := drop (unat n) rest, outp := outp c @ [0x05, 0x00]\<rparr>) of
           (Inl err, c2) \<Rightarrow> (RequestFailed err, c2)
         | (Inr targetAddr, c2) \<Rightarrow>
             (case fst (Dial client ''tcp'' targetAddr) of
                Inl err \<Rightarrow> (DialFailed err, sendReply c2 repHostUnreach None)
              | Inr remoteConn \<Rightarrow>
                  (Relaying targetAddr remoteConn,
                   sendReply c2 repSuccess (Some (LocalAddr c2)))))"
    by (rule handleConnection_after_handshake [OF a])
qed

text \<open>
  The theorem on three greetings: version 4; version 5 offering methods 1 and 2;
  version 5 offering methods 2 and 0, followed by a request that an unconnected
  client cannot dial.
\<close>

theorem handshake_replies_witness:
  "handleConnection (NewClient ())
      \<lparr>inp = [0x04, 0x01, 0x00], outp = [], wr_broken = False,
         LocalAddr = \<lparr>IP = Some [127, 0, 0, 1], Port = 1080\<rparr>\<rparr>
     = (HandshakeFailed (UnsupportedSOCKSVersion 0x04),
        \<lparr>inp = [0x00], outp = [], wr_broken = False,
           LocalAddr = \<lparr>IP = Some [127, 0, 0, 1], Port = 1080\<rparr>\<rparr>)
   \<and> handleConnection (NewClient ())
      \<lparr>inp = [0x05, 0x02, 0x01, 0x02, 0x09], outp = [], wr_broken = False,
         LocalAddr = \<lparr>IP = Some [127, 0, 0, 1], Port = 1080\<rparr>\<rparr>
     = (HandshakeFailed NoAuthNotOffered,
        \<lparr>inp = [0x09], outp = [0x05, 0xFF], wr_broken = False,
           LocalAddr = \<lparr>IP = Some [127, 0, 0, 1], Port = 1080\<rparr>\<rparr>)
   \<and> handshake
      \<lparr>inp = [0x05, 0x02, 0x02, 0x00, 0x05, 0x02, 0x00, 0x01], outp = [], wr_broken = False,
         LocalAddr = \<lparr>IP = Some [127, 0, 0, 1], Port = 1080\<rparr>\<rparr>
     = (None,
        \<lparr>inp = [0x05, 0x02, 0x00, 0x01], outp = [0x05, 0x00], wr_broken = False,
           LocalAddr = \<lparr>IP = Some [127, 0, 0, 1], Port = 1080\<rparr>\<rparr>)
   \<and> handleConnection (NewClient ())
      \<lparr>inp = [0x05, 0x02, 0x02, 0x00, 0x05, 0x02, 0x00, 0x01], outp = [], wr_broken = False,
         LocalAddr = \<lparr>IP = Some [127, 0, 0, 1], Port = 1080\<rparr>\<rparr>
     = (RequestFailed (UnsupportedCommand 0x02),
        \<lparr>inp = [], outp = [0x05, 0x00, 0x05, 0x07, 0, 0x01, 0, 0, 0, 0, 0, 0],
           wr_broken = False, LocalAddr = \<lparr>IP = Some [127, 0, 0, 1], Port = 1080\<rparr>\<rparr>)"
proof -
  let ?c = "\<lambda>bs. \<lparr>inp = bs, outp = [], wr_broken = False,
                   LocalAddr = \<lparr>IP = Some [127, 0, 0, 1], Port = 1080\<rparr>\<rparr>"
  let ?g = "[0x05, 0x02, 0x02, 0x00, 0x05, 0x02, 0x00, 0x01] :: byte list"
  have a: "handshake (?c [0x04, 0x01, 0x00])
        = (Some (UnsupportedSOCKSVersion 0x04), (?c [0x04, 0x01, 0x00])\<lparr>inp := [0x00]\<rparr>)
      \<and> handleConnection (NewClient ()) (?c [0x04, 0x01, 0x00])
        = (HandshakeFailed (UnsupportedSOCKSVersion 0x04),
           (?c [0x04, 0x01, 0x00])\<lparr>inp := [0x00]\<rparr>)"
    by (rule handshake_replies [THEN conjunct1, THEN mp]) simp
  have b: "handshake (?c [0x05, 0x02, 0x01, 0x02, 0x09])
        = (Some NoAuthNotOffered,
           (?c [0x05, 0x02, 0x01, 0x02, 0x09])
             \<lparr>inp := drop (unat (0x02 :: byte)) [0x01, 0x02, 0x09],
                outp := outp (?c [0x05, 0x02, 0x01, 0x02, 0x09]) @ [0x05, 0xFF]\<rparr>)
      \<and> handleConnection (NewClient ()) (?c [0x05, 0x02, 0x01, 0x02, 0x09])
        = (HandshakeFailed NoAuthNotOffered,
           (?c [0x05, 0x02, 0x01, 0x02, 0x09])
             \<lparr>inp := drop (unat (0x02 :: byte)) [0x01, 0x02, 0x09],
                outp := outp (?c [0x05, 0x02, 0x01, 0x02, 0x09]) @ [0x05, 0xFF]\<rparr>)"
    by (rule handshake_replies [THEN conjunct2, THEN conjunct1, THEN mp]) simp
  let ?c1 = "(?c ?g)\<lparr>inp := drop (unat (0x02 :: byte)) [0x02, 0x00, 0x05, 0x02, 0x00, 0x01],
                       outp := outp (?c ?g) @ [0x05, 0x00]\<rparr>"
  have c: "handshake (?c ?g) = (None, ?c1)
      \<and> handleConnection (NewClient ()) (?c ?g)
        = (case readRequest ?c1 of
             (Inl err, c2) \<Rightarrow> (RequestFailed err, c2)
           | (Inr targetAddr, c2) \<Rightarrow>
               (case fst (Dial (NewClient ()) ''tcp'' targetAddr) of
                  Inl err \<Rightarrow> (DialFailed err, sendReply c2 repHostUnreach None)
                | Inr remoteConn \<Rightarrow>
                    (Relaying targetAddr remoteConn,
                     sendReply c2 repSuccess (Some (LocalAddr c2)))))"
    by (rule handshake_replies [THEN conjunct2, THEN conjunct2, THEN mp]) simp
  have c1: "?c1 = \<lparr>inp = [0x05, 0x02, 0x00, 0x01], outp = [0x05, 0x00], wr_broken = False,
                    LocalAddr = \<lparr>IP = Some [127, 0, 0, 1], Port = 1080\<rparr>\<rparr>"
    by simp
  have rq: "readRequest \<lparr>inp = [0x05, 0x02, 0x00, 0x01], outp = [0x05, 0x00],
                          wr_broken = False,
                          LocalAddr = \<lparr>IP = Some [127, 0, 0, 1], Port = 1080\<rparr>\<rparr>
      = (Inl (UnsupportedCommand 0x02),
         \<lparr>inp = [], outp = [0x05, 0x00, 0x05, 0x07, 0, 0x01, 0, 0, 0, 0, 0, 0],
            wr_broken = False, LocalAddr = \<lparr>IP = Some [127, 0, 0, 1], Port = 1080\<rparr>\<rparr>)"
    by (simp add: readRequest_def ReadFull_def sendReply_def Write_def reply_bytes_def
          socks_consts)
  from a have a': "handleConnection (NewClient ()) (?c [0x04, 0x01, 0x00])
      = (HandshakeFailed (UnsupportedSOCKSVersion 0x04), ?c [0x00])"
    by simp
  from b have b': "handleConnection (NewClient ()) (?c [0x05, 0x02, 0x01, 0x02, 0x09])
      = (HandshakeFailed NoAuthNotOffered, (?c [0x09])\<lparr>outp := [0x05, 0xFF]\<rparr>)"
    by simp
  from c have c': "handshake (?c ?g) = (None, ?c1)"
    and c'': "handleConnection (NewClient ()) (?c ?g)
      = (RequestFailed (UnsupportedCommand 0x02),
         \<lparr>inp = [], outp = [0x05, 0x00, 0x05, 0x07, 0, 0x01, 0, 0, 0, 0, 0, 0],
            wr_broken = False, LocalAddr = \<lparr>IP = Some [127, 0, 0, 1], Port = 1080\<rparr>\<rparr>)"
    unfolding c1 rq by simp_all
  from a' b' c' c'' show ?thesis
    unfolding c1 by simp
qed

subsection \<open>SOCKS5 request\<close>

lemma IP_String_v4: "IP_String [w, x, y, z] = dotted [w, x, y, z]"
  by (simp add: IP_String_def To4_def)

lemma To4_mapped:
  "To4 (replicate 10 0 @ [0xFF, 0xFF, w, x, y, z]) = Some [w, x, y, z]"
  by (simp add: To4_def nth_append)

lemma join_colon_has_colon: "CHR '':'' \<in> set (join_colon (g # h # gs))"
  by simp

lemma v6text_has_colon: "CHR '':'' \<in> set (v6text ip)"
proof -
  obtain zs ze where z: "longest_zero_run (map (v6u16 ip) [0..<8]) = (zs, ze)"
    by (cases "longest_zero_run (map (v6u16 ip) [0..<8])") auto
  have e: "[0..<8] = [0, 1, 2, 3, 4, 5, 6, 7]"
    by (simp add: upt_rec)
  show ?thesis
    by (simp add: v6text_def Let_def z) (simp add: e)
qed

lemma sendReply_nil:
  "\<not> wr_broken c \<Longrightarrow>
   sendReply c rep None = c\<lparr>outp := outp c @ [0x05, rep, 0, 0x01, 0, 0, 0, 0, 0, 0]\<rparr>"
  by (simp add: sendReply_def Write_def reply_bytes_def socks_consts)

lemma readRequest_header:
  "inp c = ver # cmd # rsv # atyp # rest \<Longrightarrow>
   ReadFull c 4 = (Some [ver, cmd, rsv, atyp], c\<lparr>inp := rest\<rparr>)"
  by (simp add: ReadFull_def)

lemma readRequest_connect:
  assumes "inp c = 0x05 # 0x01 # rsv # atyp # rest"
  shows "readRequest c =
     (case read_host atyp (c\<lparr>inp := rest\<rparr>) of
        (Inl err, c2) \<Rightarrow> (Inl err, c2)
      | (Inr host, c2) \<Rightarrow>
          (case ReadFull c2 2 of
             (None, c3) \<Rightarrow> (Inl ReadPortFailed, c3)
           | (Some portBuf, c3) \<Rightarrow>
               (Inr (host @ '':'' @ decimal (unat (Uint16 portBuf))), c3)))"
  by (simp add: readRequest_def readRequest_header [OF assms] socks_consts)

lemma read_port:
  "inp c = ph # pl # rest \<Longrightarrow>
   ReadFull c 2 = (Some [ph, pl], c\<lparr>inp := rest\<rparr>)"
  by (simp add: ReadFull_def)

lemma readRequest_with_host:
  assumes "inp c = 0x05 # 0x01 # rsv # atyp # body"
    and "read_host atyp (c\<lparr>inp := body\<rparr>) = (Inr host, c\<lparr>inp := ph # pl # rest\<rparr>)"
  shows "readRequest c =
     (Inr (host @ '':'' @ decimal (256 * unat ph + unat pl)), c\<lparr>inp := rest\<rparr>)"
  by (simp add: readRequest_connect [OF assms(1)] assms(2) read_port Uint16_value)

lemma read_host_v6:
  "length addr = 16 \<Longrightarrow>
   read_host 0x04 (c\<lparr>inp := addr @ ph # pl # rest\<rparr>)
     = (Inr (IP_String addr), c\<lparr>inp := ph # pl # rest\<rparr>)"
  by (simp add: read_host_def ReadFull_def socks_consts)

text \<open>
  Claim C4 (amended). After the four header bytes (version, command, reserved,
  address type): a version byte other than 0x05 ends the connection with no reply;
  with version 0x05, a command other than 0x01 is answered with reply code 0x07
  and ends the connection; with command 0x01, address type 0x01 decodes four bytes
  to dotted decimal, 0x03 a length byte and that many bytes to the domain string,
  unresolved, 0x04 sixteen bytes as an IPv6 literal (colon-separated hexadecimal
  groups), except that the sixteen bytes of an IPv4-mapped address
  \<open>::ffff:a.b.c.d\<close> are decoded to the dotted decimal \<open>a.b.c.d\<close>; any other
  address type is answered with reply code 0x08 and ends the connection; then two
  bytes are the port, big-endian, and the result is \<open>host:port\<close>.
\<close>

theorem readRequest_decoding:
  "(inp c = ver # cmd # rsv # atyp # rest \<and> ver \<noteq> 0x05 \<longrightarrow>
      readRequest c = (Inl (InvalidSOCKSVersion ver), c\<lparr>inp := rest\<rparr>))
   \<and> (inp c = 0x05 # cmd # rsv # atyp # rest \<and> cmd \<noteq> 0x01 \<and> \<not> wr_broken c \<longrightarrow>
      readRequest c =
        (Inl (UnsupportedCommand cmd),
         c\<lparr>inp := rest, outp := outp c @ [0x05, 0x07, 0, 0x01, 0, 0, 0, 0, 0, 0]\<rparr>))
   \<and> (inp c = 0x05 # 0x01 # rsv # 0x01 # w # x # y # z # ph # pl # rest \<longrightarrow>
      readRequest c =
        (Inr (decimal (unat w) @ ''.'' @ decimal (unat x) @ ''.'' @ decimal (unat y)
                @ ''.'' @ decimal (unat z) @ '':'' @ decimal (256 * unat ph + unat pl)),
         c\<lparr>inp := rest\<rparr>))
   \<and> (inp c = 0x05 # 0x01 # rsv # 0x03 # len # domain @ ph # pl # rest
        \<and> length domain = unat len \<longrightarrow>
      readRequest c =
        (Inr (string_of_bytes domain @ '':'' @ decimal (256 * unat ph + unat pl)),
         c\<lparr>inp := rest\<rparr>))
   \<and> (inp c = 0x05 # 0x01 # rsv # 0x04 # addr @ ph # pl # rest \<and> length addr = 16
        \<and> To4 addr = None \<longrightarrow>
      readRequest c =
        (Inr (v6text addr @ '':'' @ decimal (256 * unat ph + unat pl)), c\<lparr>inp := rest\<rparr>)
      \<and> CHR '':'' \<in> set (v6text addr))
   \<and> (inp c = 0x05 # 0x01 # rsv # 0x04 # replicate 10 0 @ [0xFF, 0xFF, w, x, y, z]
                   @ ph # pl # rest \<longrightarrow>
      readRequest c =
        (Inr (decimal (unat w) @ ''.'' @ decimal (unat x) @ ''.'' @ decimal (unat y)
                @ ''.'' @ decimal (unat z) @ '':'' @ decimal (256 * unat ph + unat pl)),
         c\<lparr>inp := rest\<rparr>))
   \<and> (inp c = 0x05 # 0x01 # rsv # atyp # rest
        \<and> atyp \<noteq> 0x01 \<and> atyp \<noteq> 0x03 \<and> atyp \<noteq> 0x04 \<and> \<not> wr_broken c \<longrightarrow>
      readRequest c =
        (Inl (UnsupportedAddrType atyp),
         c\<lparr>inp := rest, outp := outp c @ [0x05, 0x08, 0, 0x01, 0, 0, 0, 0, 0, 0]\<rparr>))"
proof (intro conjI impI)
  assume "inp c = ver # cmd # rsv # atyp # rest \<and> ver \<noteq> 0x05"
  then show "readRequest c = (Inl (InvalidSOCKSVersion ver), c\<lparr>inp := rest\<rparr>)"
    by (simp add: readRequest_def readRequest_header socks_consts)
next
  assume h: "inp c = 0x05 # cmd # rsv # atyp # rest \<and> cmd \<noteq> 0x01 \<and> \<not> wr_broken c"
  then have "ReadFull c 4 = (Some [0x05, cmd, rsv, atyp], c\<lparr>inp := rest\<rparr>)"
    by (simp add: readRequest_header)
  then show "readRequest c =
        (Inl (UnsupportedCommand cmd),
         c\<lparr>inp := rest, outp := outp c @ [0x05, 0x07, 0, 0x01, 0, 0, 0, 0, 0, 0]\<rparr>)"
    using h by (simp add: readRequest_def sendReply_nil socks_consts)
next
  assume h: "inp c = 0x05 # 0x01 # rsv # 0x01 # w # x # y # z # ph # pl # rest"
  have host: "read_host 0x01 (c\<lparr>inp := w # x # y # z # ph # pl # rest\<rparr>)
      = (Inr (dotted [w, x, y, z]), c\<lparr>inp := ph # pl # rest\<rparr>)"
    by (simp add: read_host_def ReadFull_def IP_String_v4 socks_consts)
  show "readRequest c =
        (Inr (decimal (unat w) @ ''.'' @ decimal (unat x) @ ''.'' @ decimal (unat y)
                @ ''.'' @ decimal (unat z) @ '':'' @ decimal (256 * unat ph + unat pl)),
         c\<lparr>inp := rest\<rparr>)"
    using readRequest_with_host [OF h host] by (simp add: dotted_def)
next
  assume h: "inp c = 0x05 # 0x01 # rsv # 0x03 # len # domain @ ph # pl # rest
      \<and> length domain = unat len"
  then have host: "read_host 0x03 (c\<lparr>inp := len # domain @ ph # pl # rest\<rparr>)
      = (Inr (string_of_bytes domain), c\<lparr>inp := ph # pl # rest\<rparr>)"
    by (simp add: read_host_def ReadFull_def socks_consts)
  from h have i: "inp c = 0x05 # 0x01 # rsv # 0x03 # (len # domain @ ph # pl # rest)" by simp
  show "readRequest c =
        (Inr (string_of_bytes domain @ '':'' @ decimal (256 * unat ph + unat pl)),
         c\<lparr>inp := rest\<rparr>)"
    using readRequest_with_host [OF i host] by simp
next
  assume h: "inp c = 0x05 # 0x01 # rsv # 0x04 # addr @ ph # pl # rest \<and> length addr = 16
      \<and> To4 addr = None"
  then have host: "read_host 0x04 (c\<lparr>inp := addr @ ph # pl # rest\<rparr>)
      = (Inr (v6text addr), c\<lparr>inp := ph # pl # rest\<rparr>)"
    by (simp add: read_host_v6 IP_String_def)
  from h have i: "inp c = 0x05 # 0x01 # rsv # 0x04 # (addr @ ph # pl # rest)" by simp
  show "readRequest c =
        (Inr (v6text addr @ '':'' @ decimal (256 * unat ph + unat pl)), c\<lparr>inp := rest\<rparr>)"
    using readRequest_with_host [OF i host] by simp
  show "CHR '':'' \<in> set (v6text addr)" by (rule v6text_has_colon)
next
  let ?m = "replicate 10 0 @ [0xFF, 0xFF, w, x, y, z] :: byte list"
  assume h: "inp c = 0x05 # 0x01 # rsv # 0x04 # replicate 10 0 @ [0xFF, 0xFF, w, x, y, z]
                   @ ph # pl # rest"
  have "read_host 0x04 (c\<lparr>inp := ?m @ ph # pl # rest\<rparr>)
      = (Inr (IP_String ?m), c\<lparr>inp := ph # pl # rest\<rparr>)"
    by (rule read_host_v6) simp
  then have host: "read_host 0x04 (c\<lparr>inp := ?m @ ph # pl # rest\<rparr>)
      = (Inr (dotted [w, x, y, z]), c\<lparr>inp := ph # pl # rest\<rparr>)"
    by (simp only: IP_String_def To4_mapped option.case)
  from h have i: "inp c = 0x05 # 0x01 # rsv # 0x04 # (?m @ ph # pl # rest)" by simp
  show "readRequest c =
        (Inr (decimal (unat w) @ ''.'' @ decimal (unat x) @ ''.'' @ decimal (unat y)
                @ ''.'' @ decimal (unat z) @ '':'' @ decimal (256 * unat ph + unat pl)),
         c\<lparr>inp := rest\<rparr>)"
    using readRequest_with_host [OF i host] by (simp add: dotted_def)
next
  assume h: "inp c = 0x05 # 0x01 # rsv # atyp # rest
      \<and> atyp \<noteq> 0x01 \<and> atyp \<noteq> 0x03 \<and> atyp \<noteq> 0x04 \<and> \<not> wr_broken c"
  then have host: "read_host atyp (c\<lparr>inp := rest\<rparr>)
      = (Inl (UnsupportedAddrType atyp),
         c\<lparr>inp := rest, outp := outp c @ [0x05, 0x08, 0, 0x01, 0, 0, 0, 0, 0, 0]\<rparr>)"
    by (simp add: read_host_def sendReply_nil socks_consts)
  from h have i: "inp c = 0x05 # 0x01 # rsv # atyp # rest" by simp
  show "readRequest c =
        (Inl (UnsupportedAddrType atyp),
         c\<lparr>inp := rest, outp := outp c @ [0x05, 0x08, 0, 0x01, 0, 0, 0, 0, 0, 0]\<rparr>)"
    by (simp add: readRequest_connect [OF i] host)
qed

lemma digit_values:
  "digit 0 = CHR ''0''" "digit (Suc 0) = CHR ''1''" "digit 1 = CHR ''1''" "digit 2 = CHR ''2''"
  "digit 3 = CHR ''3''" "digit 4 = CHR ''4''" "digit 5 = CHR ''5''" "digit 6 = CHR ''6''"
  "digit 7 = CHR ''7''" "digit 8 = CHR ''8''" "digit 9 = CHR ''9''"
  by (simp_all add: digit_def)

lemma decimal_small: "n < 10 \<Longrightarrow> decimal n = [digit n]"
  by (simp add: decimal.simps [of n])

lemma decimal_big: "10 \<le> n \<Longrightarrow> decimal n = decimal (n div 10) @ [digit (n mod 10)]"
  by (simp add: decimal.simps [of n])

lemma decimal_values:
  "decimal 0 = ''0''" "decimal (Suc 0) = ''1''" "decimal 10 = ''10''"
  "decimal 80 = ''80''" "decimal 443 = ''443''" "decimal 8080 = ''8080''"
  by (simp_all add: decimal_small decimal_big digit_values)

lemma hexdigit_values:
  "hexdigit 0 = CHR ''0''" "hexdigit (Suc 0) = CHR ''1''" "hexdigit 1 = CHR ''1''"
  "hexdigit 2 = CHR ''2''" "hexdigit 3 = CHR ''3''" "hexdigit 4 = CHR ''4''"
  "hexdigit 5 = CHR ''5''" "hexdigit 6 = CHR ''6''" "hexdigit 7 = CHR ''7''"
  "hexdigit 8 = CHR ''8''" "hexdigit 9 = CHR ''9''" "hexdigit 10 = CHR ''a''"
  "hexdigit 11 = CHR ''b''" "hexdigit 12 = CHR ''c''" "hexdigit 13 = CHR ''d''"
  "hexdigit 14 = CHR ''e''" "hexdigit 15 = CHR ''f''"
  by (simp_all add: hexdigit_def)

lemma appendHex_small: "n < 16 \<Longrightarrow> appendHex n = [hexdigit n]"
  by (simp add: appendHex.simps [of n])

lemma appendHex_big: "16 \<le> n \<Longrightarrow> appendHex n = appendHex (n div 16) @ [hexdigit (n mod 16)]"
  by (simp add: appendHex.simps [of n])

lemma upt8: "[0..<8] = [0, 1, 2, 3, 4, 5, 6, 7]"
  by (simp add: upt_rec)

lemma replicate10: "replicate 10 (0 :: byte) = [0, 0, 0, 0, 0, 0, 0, 0, 0, 0]"
  by (simp add: numeral_eq_Suc)

text \<open>
  The theorem on one request for each of its cases; the IPv6 address is
  \<open>2001:db8::1\<close>, the IPv4-mapped one \<open>::ffff:10.0.0.1\<close>.
\<close>

theorem readRequest_decoding_witness:
  "readRequest
      \<lparr>inp = [0x04, 0x02, 0x00, 0x01], outp = [], wr_broken = False,
         LocalAddr = \<lparr>IP = Some [127, 0, 0, 1], Port = 1080\<rparr>\<rparr>
     = (Inl (InvalidSOCKSVersion 0x04),
        \<lparr>inp = [], outp = [], wr_broken = False,
           LocalAddr = \<lparr>IP = Some [127, 0, 0, 1], Port = 1080\<rparr>\<rparr>)
   \<and> readRequest
      \<lparr>inp = [0x05, 0x02, 0x00, 0x01], outp = [], wr_broken = False,
         LocalAddr = \<lparr>IP = Some [127, 0, 0, 1], Port = 1080\<rparr>\<rparr>
     = (Inl (UnsupportedCommand 0x02),
        \<lparr>inp = [], outp = [0x05, 0x07, 0, 0x01, 0, 0, 0, 0, 0, 0], wr_broken = False,
           LocalAddr = \<lparr>IP = Some [127, 0, 0, 1], Port = 1080\<rparr>\<rparr>)
   \<and> readRequest
      \<lparr>inp = [0x05, 0x01, 0x00, 0x01, 10, 0, 0, 1, 0x1F, 0x90], outp = [],
         wr_broken = False, LocalAddr = \<lparr>IP = Some [127, 0, 0, 1], Port = 1080\<rparr>\<rparr>
     = (Inr ''10.0.0.1:8080'',
        \<lparr>inp = [], outp = [], wr_broken = False,
           LocalAddr = \<lparr>IP = Some [127, 0, 0, 1], Port = 1080\<rparr>\<rparr>)
   \<and> readRequest
      \<lparr>inp = [0x05, 0x01, 0x00, 0x03, 0x03, 0x61, 0x62, 0x63, 0x00, 0x50], outp = [],
         wr_broken = False, LocalAddr = \<lparr>IP = Some [127, 0, 0, 1], Port = 1080\<rparr>\<rparr>
     = (Inr ''abc:80'',
        \<lparr>inp = [], outp = [], wr_broken = False,
           LocalAddr = \<lparr>IP = Some [127, 0, 0, 1], Port = 1080\<rparr>\<rparr>)
   \<and> readRequest
      \<lparr>inp = [0x05, 0x01, 0x00, 0x04,
               0x20, 0x01, 0x0D, 0xB8, 0, 0, 0, 0, 0, 0, 0, 0, 0, 0, 0, 1, 0x01, 0xBB],
         outp = [], wr_broken = False,
         LocalAddr = \<lparr>IP = Some [127, 0, 0, 1], Port = 1080\<rparr>\<rparr>
     = (Inr ''2001:db8::1:443'',
        \<lparr>inp = [], outp = [], wr_broken = False,
           LocalAddr = \<lparr>IP = Some [127, 0, 0, 1], Port = 1080\<rparr>\<rparr>)
   \<and> readRequest
      \<lparr>inp = [0x05, 0x01, 0x00, 0x04,
               0, 0, 0, 0, 0, 0, 0, 0, 0, 0, 0xFF, 0xFF, 10, 0, 0, 1, 0x00, 0x50],
         outp = [], wr_broken = False,
         LocalAddr = \<lparr>IP = Some [127, 0, 0, 1], Port = 1080\<rparr>\<rparr>
     = (Inr ''10.0.0.1:80'',
        \<lparr>inp = [], outp = [], wr_broken = False,
           LocalAddr = \<lparr>IP = Some [127, 0, 0, 1], Port = 1080\<rparr>\<rparr>)
   \<and> readRequest
      \<lparr>inp = [0x05, 0x01, 0x00, 0x09], outp = [], wr_broken = False,
         LocalAddr = \<lparr>IP = Some [127, 0, 0, 1], Port = 1080\<rparr>\<rparr>
     = (Inl (UnsupportedAddrType 0x09),
        \<lparr>inp = [], outp = [0x05, 0x08, 0, 0x01, 0, 0, 0, 0, 0, 0], wr_broken = False,
           LocalAddr = \<lparr>IP = Some [127, 0, 0, 1], Port = 1080\<rparr>\<rparr>)"
proof -
  let ?c = "\<lambda>bs. \<lparr>inp = bs, outp = [], wr_broken = False,
                   LocalAddr = \<lparr>IP = Some [127, 0, 0, 1], Port = 1080\<rparr>\<rparr>"
  let ?a6 = "[0x20, 0x01, 0x0D, 0xB8, 0, 0, 0, 0, 0, 0, 0, 0, 0, 0, 0, 1] :: byte list"
  note dec = decimal_values
  have sb: "string_of_bytes [0x61, 0x62, 0x63] = ''abc''"
    by (simp add: string_of_bytes_def char_of_eq_iff)
  have v6: "v6text ?a6 = ''2001:db8::1''"
    by (simp add: v6text_def longest_zero_run_def zero_run_def v6u16_def upt8 Let_def
          appendHex_small appendHex_big hexdigit_values)
  have n4: "To4 ?a6 = None"
    by (simp add: To4_def)
  from readRequest_decoding [where c = "?c [0x04, 0x02, 0x00, 0x01]"
      and ver = "0x04" and cmd = "0x02" and rsv = "0x00" and atyp = "0x01" and rest = "[]",
      THEN conjunct1]
  have a: "readRequest (?c [0x04, 0x02, 0x00, 0x01])
      = (Inl (InvalidSOCKSVersion 0x04), ?c [])"
    by simp
  from readRequest_decoding [where c = "?c [0x05, 0x02, 0x00, 0x01]"
      and cmd = "0x02" and rsv = "0x00" and atyp = "0x01" and rest = "[]",
      THEN conjunct2, THEN conjunct1]
  have b: "readRequest (?c [0x05, 0x02, 0x00, 0x01])
      = (Inl (UnsupportedCommand 0x02),
         (?c []) \<lparr>outp := [0x05, 0x07, 0, 0x01, 0, 0, 0, 0, 0, 0]\<rparr>)"
    by simp
  from readRequest_decoding [where c = "?c [0x05, 0x01, 0x00, 0x01, 10, 0, 0, 1, 0x1F, 0x90]"
      and rsv = "0x00" and w = 10 and x = 0 and y = 0 and z = 1
      and ph = "0x1F" and pl = "0x90" and rest = "[]",
      THEN conjunct2, THEN conjunct2, THEN conjunct1]
  have c: "readRequest (?c [0x05, 0x01, 0x00, 0x01, 10, 0, 0, 1, 0x1F, 0x90])
      = (Inr ''10.0.0.1:8080'', ?c [])"
    by (simp add: dec)
  from readRequest_decoding
      [where c = "?c [0x05, 0x01, 0x00, 0x03, 0x03, 0x61, 0x62, 0x63, 0x00, 0x50]"
      and rsv = "0x00" and len = "0x03" and domain = "[0x61, 0x62, 0x63]"
      and ph = "0x00" and pl = "0x50" and rest = "[]",
      THEN conjunct2, THEN conjunct2, THEN conjunct2, THEN conjunct1]
  have d: "readRequest (?c [0x05, 0x01, 0x00, 0x03, 0x03, 0x61, 0x62, 0x63, 0x00, 0x50])
      = (Inr ''abc:80'', ?c [])"
    by (simp add: dec sb)
  from readRequest_decoding
      [where c = "?c ([0x05, 0x01, 0x00, 0x04] @ ?a6 @ [0x01, 0xBB])"
      and rsv = "0x00" and addr = ?a6 and ph = "0x01" and pl = "0xBB" and rest = "[]",
      THEN conjunct2, THEN conjunct2, THEN conjunct2, THEN conjunct2, THEN conjunct1]
    n4
  have e: "readRequest (?c ([0x05, 0x01, 0x00, 0x04] @ ?a6 @ [0x01, 0xBB]))
      = (Inr ''2001:db8::1:443'', ?c [])"
    by (simp add: dec v6)
  from readRequest_decoding
      [where c = "?c ([0x05, 0x01, 0x00, 0x04] @ replicate 10 0
                        @ [0xFF, 0xFF, 10, 0, 0, 1] @ [0x00, 0x50])"
      and rsv = "0x00" and w = 10 and x = 0 and y = 0 and z = 1
      and ph = "0x00" and pl = "0x50" and rest = "[]",
      THEN conjunct2, THEN conjunct2, THEN conjunct2, THEN conjunct2, THEN conjunct2,
      THEN conjunct1]
  have f: "readRequest (?c ([0x05, 0x01, 0x00, 0x04] @ replicate 10 0
                              @ [0xFF, 0xFF, 10, 0, 0, 1] @ [0x00, 0x50]))
      = (Inr ''10.0.0.1:80'', ?c [])"
    by (simp add: dec)
  from readRequest_decoding [where c = "?c [0x05, 0x01, 0x00, 0x09]"
      and rsv = "0x00" and atyp = "0x09" and rest = "[]",
      THEN conjunct2, THEN conjunct2, THEN conjunct2, THEN conjunct2, THEN conjunct2,
      THEN conjunct2]
  have g: "readRequest (?c [0x05, 0x01, 0x00, 0x09])
      = (Inl (UnsupportedAddrType 0x09),
         (?c []) \<lparr>outp := [0x05, 0x08, 0, 0x01, 0, 0, 0, 0, 0, 0]\<rparr>)"
    by simp
  from a b c d e f g show ?thesis
    by (simp add: replicate10)
qed

text \<open>
  Two clauses of the claim fail. With version byte 0x04 the request is refused
  before the command and the address type are looked at: a BIND command (0x02)
  gets no reply 0x07, and an unknown address type (0x09) gets no reply 0x08;
  nothing is written. And the sixteen bytes of the IPv4-mapped address
  \<open>::ffff:10.0.0.1\<close> under address type 0x04 come out as the dotted decimal
  \<open>10.0.0.1\<close>, which has no colon and is no IPv6 literal.
\<close>

theorem readRequest_bad_version_counterexample:
  "readRequest
      \<lparr>inp = [0x04, 0x02, 0x00, 0x01], outp = [], wr_broken = False,
         LocalAddr = \<lparr>IP = Some [127, 0, 0, 1], Port = 1080\<rparr>\<rparr>
     = (Inl (InvalidSOCKSVersion 0x04),
        \<lparr>inp = [], outp = [], wr_broken = False,
           LocalAddr = \<lparr>IP = Some [127, 0, 0, 1], Port = 1080\<rparr>\<rparr>)
   \<and> readRequest
      \<lparr>inp = [0x04, 0x01, 0x00, 0x09], outp = [], wr_broken = False,
         LocalAddr = \<lparr>IP = Some [127, 0, 0, 1], Port = 1080\<rparr>\<rparr>
     = (Inl (InvalidSOCKSVersion 0x04),
        \<lparr>inp = [], outp = [], wr_broken = False,
           LocalAddr = \<lparr>IP = Some [127, 0, 0, 1], Port = 1080\<rparr>\<rparr>)
   \<and> readRequest
      \<lparr>inp = [0x05, 0x01, 0x00, 0x04,
               0, 0, 0, 0, 0, 0, 0, 0, 0, 0, 0xFF, 0xFF, 10, 0, 0, 1, 0x00, 0x50],
         outp = [], wr_broken = False,
         LocalAddr = \<lparr>IP = Some [127, 0, 0, 1], Port = 1080\<rparr>\<rparr>
     = (Inr ''10.0.0.1:80'',
        \<lparr>inp = [], outp = [], wr_broken = False,
           LocalAddr = \<lparr>IP = Some [127, 0, 0, 1], Port = 1080\<rparr>\<rparr>)
   \<and> CHR '':'' \<notin> set ''10.0.0.1''"
proof -
  have v: "readRequest
      \<lparr>inp = [0x04, 0x02, 0x00, 0x01], outp = [], wr_broken = False,
         LocalAddr = \<lparr>IP = Some [127, 0, 0, 1], Port = 1080\<rparr>\<rparr>
     = (Inl (InvalidSOCKSVersion 0x04),
        \<lparr>inp = [], outp = [], wr_broken = False,
           LocalAddr = \<lparr>IP = Some [127, 0, 0, 1], Port = 1080\<rparr>\<rparr>)"
    "readRequest
      \<lparr>inp = [0x04, 0x01, 0x00, 0x09], outp = [], wr_broken = False,
         LocalAddr = \<lparr>IP = Some [127, 0, 0, 1], Port = 1080\<rparr>\<rparr>
     = (Inl (InvalidSOCKSVersion 0x04),
        \<lparr>inp = [], outp = [], wr_broken = False,
           LocalAddr = \<lparr>IP = Some [127, 0, 0, 1], Port = 1080\<rparr>\<rparr>)"
    by (simp_all add: readRequest_def ReadFull_def socks_consts)
  have m: "readRequest
      \<lparr>inp = [0x05, 0x01, 0x00, 0x04,
               0, 0, 0, 0, 0, 0, 0, 0, 0, 0, 0xFF, 0xFF, 10, 0, 0, 1, 0x00, 0x50],
         outp = [], wr_broken = False,
         LocalAddr = \<lparr>IP = Some [127, 0, 0, 1], Port = 1080\<rparr>\<rparr>
     = (Inr ''10.0.0.1:80'',
        \<lparr>inp = [], outp = [], wr_broken = False,
           LocalAddr = \<lparr>IP = Some [127, 0, 0, 1], Port = 1080\<rparr>\<rparr>)"
    by (simp add: readRequest_def read_host_def ReadFull_def IP_String_def To4_def
          dotted_def Uint16_value decimal_values replicate10 socks_consts)
  from v m show ?thesis by simp
qed


subsection \<open>SOCKS5 replies\<close>

lemma reply_bytes_length: "length (reply_bytes rep addr) = 10"
  by (auto simp: reply_bytes_def PutUint16_def To4_length split: option.splits)

lemma reply_bytes_head: "take 4 (reply_bytes rep addr) = [0x05, rep, 0x00, 0x01]"
  by (simp add: reply_bytes_def socks_consts)

lemma reply_bytes_nil: "reply_bytes rep None = [0x05, rep, 0, 0x01, 0, 0, 0, 0, 0, 0]"
  by (simp add: reply_bytes_def socks_consts)

lemma reply_bytes_addr:
  "IP a = Some ip \<Longrightarrow>
   reply_bytes rep (Some a) =
     [0x05, rep, 0x00, 0x01] @ (case To4 ip of Some v4 \<Rightarrow> v4 | None \<Rightarrow> [0, 0, 0, 0])
       @ PutUint16 (word_of_int (Port a))"
  by (simp add: reply_bytes_def socks_consts)

lemma sendReply_written:
  "\<not> wr_broken c \<Longrightarrow> sendReply c rep addr = c\<lparr>outp := outp c @ reply_bytes rep addr\<rparr>"
  by (simp add: sendReply_def Write_def)

lemma port_bytes:
  assumes "0 \<le> p" and "p < 65536"
  shows "map unat (PutUint16 (word_of_int p)) = [nat p div 256, nat p mod 256]"
proof -
  have "unat (word_of_int p :: 16 word) = nat p"
    using assms by (simp add: unat_eq_nat_uint uint_word_of_int take_bit_eq_mod)
  then show ?thesis by (simp add: PutUint16_value)
qed

lemma handleConnection_dial:
  assumes "handshake c = (None, c1)" and "readRequest c1 = (Inr target, c2)"
  shows "handleConnection client c =
     (case fst (Dial client ''tcp'' target) of
        Inl err \<Rightarrow> (DialFailed err, sendReply c2 repHostUnreach None)
      | Inr remoteConn \<Rightarrow>
          (Relaying target remoteConn, sendReply c2 repSuccess (Some (LocalAddr c2))))"
  by (simp add: handleConnection_def assms)

text \<open>
  Claim C5. Every reply \<^verbatim>\<open>sendReply\<close> writes is exactly ten bytes: version 0x05,
  the reply code, a zero byte, address type 0x01, four address bytes and two port
  bytes, big-endian. When the dial through the transport fails, the reply code is
  0x04 with zero address and port; when it succeeds, the reply code is 0x00 and
  the address and port are those of the connection's local (accept) address, with
  0.0.0.0 in place of an address that \<^verbatim>\<open>To4\<close> does not give four bytes for. The
  connection takes the write, and its local address carries an IP, as the address
  of an accepted TCP connection does.
\<close>

theorem sendReply_format:
  "length (reply_bytes rep addr) = 10
   \<and> take 4 (reply_bytes rep addr) = [0x05, rep, 0x00, 0x01]
   \<and> (\<not> wr_broken c \<longrightarrow>
        sendReply c rep addr = c\<lparr>outp := outp c @ reply_bytes rep addr\<rparr>)
   \<and> (handshake c = (None, c1) \<and> readRequest c1 = (Inr target, c2)
        \<and> fst (Dial client ''tcp'' target) = Inl err \<and> \<not> wr_broken c2 \<longrightarrow>
      handleConnection client c
        = (DialFailed err, c2\<lparr>outp := outp c2 @ [0x05, 0x04, 0, 0x01, 0, 0, 0, 0, 0, 0]\<rparr>))
   \<and> (handshake c = (None, c1) \<and> readRequest c1 = (Inr target, c2)
        \<and> fst (Dial client ''tcp'' target) = Inr remote \<and> \<not> wr_broken c2
        \<and> IP (LocalAddr c2) = Some ip \<longrightarrow>
      handleConnection client c
        = (Relaying target remote,
           c2\<lparr>outp := outp c2 @ [0x05, 0x00, 0, 0x01]
                    @ (case To4 ip of Some v4 \<Rightarrow> v4 | None \<Rightarrow> [0, 0, 0, 0])
                    @ PutUint16 (word_of_int (Port (LocalAddr c2)))\<rparr>))
   \<and> (0 \<le> p \<and> p < 65536 \<longrightarrow>
      map unat (PutUint16 (word_of_int p)) = [nat p div 256, nat p mod 256])"
proof (intro conjI impI)
  show "length (reply_bytes rep addr) = 10" by (rule reply_bytes_length)
  show "take 4 (reply_bytes rep addr) = [0x05, rep, 0x00, 0x01]" by (rule reply_bytes_head)
next
  assume "\<not> wr_broken c"
  then show "sendReply c rep addr = c\<lparr>outp := outp c @ reply_bytes rep addr\<rparr>"
    by (rule sendReply_written)
next
  assume h: "handshake c = (None, c1) \<and> readRequest c1 = (Inr target, c2)
      \<and> fst (Dial client ''tcp'' target) = Inl err \<and> \<not> wr_broken c2"
  then have "handleConnection client c = (DialFailed err, sendReply c2 repHostUnreach None)"
    by (simp add: handleConnection_dial [of c c1 target c2])
  then show "handleConnection client c
      = (DialFailed err, c2\<lparr>outp := outp c2 @ [0x05, 0x04, 0, 0x01, 0, 0, 0, 0, 0, 0]\<rparr>)"
    using h by (simp add: sendReply_written reply_bytes_nil repHostUnreach_def)
next
  assume h: "handshake c = (None, c1) \<and> readRequest c1 = (Inr target, c2)
      \<and> fst (Dial client ''tcp'' target) = Inr remote \<and> \<not> wr_broken c2
      \<and> IP (LocalAddr c2) = Some ip"
  then have "handleConnection client c
      = (Relaying target remote, sendReply c2 repSuccess (Some (LocalAddr c2)))"
    by (simp add: handleConnection_dial [of c c1 target c2])
  then show "handleConnection client c
      = (Relaying target remote,
         c2\<lparr>outp := outp c2 @ [0x05, 0x00, 0, 0x01]
                  @ (case To4 ip of Some v4 \<Rightarrow> v4 | None \<Rightarrow> [0, 0, 0, 0])
                  @ PutUint16 (word_of_int (Port (LocalAddr c2)))\<rparr>)"
    using h by (simp add: sendReply_written reply_bytes_addr repSuccess_def)
next
  assume "0 \<le> p \<and> p < 65536"
  then show "map unat (PutUint16 (word_of_int p)) = [nat p div 256, nat p mod 256]"
    by (simp add: port_bytes)
qed

text \<open>
  The theorem on a greeting and a CONNECT request for 10.0.0.1:80: through a
  client that is not connected; through a connected one whose dial succeeds, on a
  connection accepted at 127.0.0.1:1080; and the same on one accepted at the IPv6
  address \<open>::1\<close>, port 1080.
\<close>

theorem sendReply_format_witness:
  "handleConnection (NewClient ())
      \<lparr>inp = [0x05, 0x01, 0x00, 0x05, 0x01, 0x00, 0x01, 10, 0, 0, 1, 0x00, 0x50],
         outp = [], wr_broken = False,
         LocalAddr = \<lparr>IP = Some [127, 0, 0, 1], Port = 1080\<rparr>\<rparr>
     = (DialFailed SSHNotConnected,
        \<lparr>inp = [], outp = [0x05, 0x00, 0x05, 0x04, 0, 0x01, 0, 0, 0, 0, 0, 0],
           wr_broken = False, LocalAddr = \<lparr>IP = Some [127, 0, 0, 1], Port = 1080\<rparr>\<rparr>)
   \<and> handleConnection
      \<lparr>cl_cfg = (),
         cl_conn = Some \<lparr>t_Dial = \<lambda>_ _. Inr 7, t_Listen = \<lambda>_ _. Inr 8,
                          t_SendRequest = None, t_Close = None\<rparr>,
         cl_closed = False\<rparr>
      \<lparr>inp = [0x05, 0x01, 0x00, 0x05, 0x01, 0x00, 0x01, 10, 0, 0, 1, 0x00, 0x50],
         outp = [], wr_broken = False,
         LocalAddr = \<lparr>IP = Some [127, 0, 0, 1], Port = 1080\<rparr>\<rparr>
     = (Relaying ''10.0.0.1:80'' 7,
        \<lparr>inp = [], outp = [0x05, 0x00, 0x05, 0x00, 0, 0x01, 127, 0, 0, 1, 0x04, 0x38],
           wr_broken = False, LocalAddr = \<lparr>IP = Some [127, 0, 0, 1], Port = 1080\<rparr>\<rparr>)
   \<and> handleConnection
      \<lparr>cl_cfg = (),
         cl_conn = Some \<lparr>t_Dial = \<lambda>_ _. Inr 7, t_Listen = \<lambda>_ _. Inr 8,
                          t_SendRequest = None, t_Close = None\<rparr>,
         cl_closed = False\<rparr>
      \<lparr>inp = [0x05, 0x01, 0x00, 0x05, 0x01, 0x00, 0x01, 10, 0, 0, 1, 0x00, 0x50],
         outp = [], wr_broken = False,
         LocalAddr = \<lparr>IP = Some [0, 0, 0, 0, 0, 0, 0, 0, 0, 0, 0, 0, 0, 0, 0, 1],
                      Port = 1080\<rparr>\<rparr>
     = (Relaying ''10.0.0.1:80'' 7,
        \<lparr>inp = [], outp = [0x05, 0x00, 0x05, 0x00, 0, 0x01, 0, 0, 0, 0, 0x04, 0x38],
           wr_broken = False,
           LocalAddr = \<lparr>IP = Some [0, 0, 0, 0, 0, 0, 0, 0, 0, 0, 0, 0, 0, 0, 0, 1],
                        Port = 1080\<rparr>\<rparr>)
   \<and> map unat (PutUint16 (word_of_int 1080)) = [4, 56]"
proof -
  let ?bs = "[0x05, 0x01, 0x00, 0x05, 0x01, 0x00, 0x01, 10, 0, 0, 1, 0x00, 0x50] :: byte list"
  let ?rq = "[0x05, 0x01, 0x00, 0x01, 10, 0, 0, 1, 0x00, 0x50] :: byte list"
  let ?v4 = "\<lparr>IP = Some [127, 0, 0, 1], Port = 1080\<rparr>"
  let ?v6 = "\<lparr>IP = Some [0, 0, 0, 0, 0, 0, 0, 0, 0, 0, 0, 0, 0, 0, 0, 1], Port = 1080\<rparr>"
  let ?c = "\<lambda>la. \<lparr>inp = ?bs, outp = [], wr_broken = False, LocalAddr = la\<rparr>"
  let ?c1 = "\<lambda>la. \<lparr>inp = ?rq, outp = [0x05, 0x00], wr_broken = False, LocalAddr = la\<rparr>"
  let ?c2 = "\<lambda>la. \<lparr>inp = [], outp = [0x05, 0x00], wr_broken = False, LocalAddr = la\<rparr>"
  let ?up = "\<lparr>cl_cfg = (),
      cl_conn = Some \<lparr>t_Dial = \<lambda>_ _. Inr 7, t_Listen = \<lambda>_ _. Inr 8,
                       t_SendRequest = None, t_Close = None\<rparr>,
      cl_closed = False\<rparr>"
  have hs: "handshake (?c la) = (None, ?c1 la)" for la
    by (simp add: handshake_def ReadFull_def Write_def socks_consts)
  have rq: "readRequest (?c1 la) = (Inr ''10.0.0.1:80'', ?c2 la)" for la
    by (simp add: readRequest_def read_host_def ReadFull_def IP_String_def To4_def dotted_def
          Uint16_value decimal_values socks_consts)
  have down: "fst (Dial (NewClient ()) ''tcp'' ''10.0.0.1:80'') = Inl SSHNotConnected"
    by (simp add: Dial_def NewClient_def)
  have up: "fst (Dial ?up ''tcp'' ''10.0.0.1:80'') = Inr 7"
    by (simp add: Dial_def)
  have p: "PutUint16 1080 = [0x04, 0x38]"
    by (simp add: PutUint16_def)
  have t4: "To4 [127, 0, 0, 1] = Some [127, 0, 0, 1]"
    "To4 [0, 0, 0, 0, 0, 0, 0, 0, 0, 0, 0, 0, 0, 0, 0, 1] = None"
    by (simp_all add: To4_def)
  from sendReply_format [where c = "?c ?v4" and ?c1.0 = "?c1 ?v4" and ?c2.0 = "?c2 ?v4"
      and target = "''10.0.0.1:80''" and client = "NewClient ()" and err = SSHNotConnected,
      THEN conjunct2, THEN conjunct2, THEN conjunct2, THEN conjunct1]
    hs [of ?v4] rq [of ?v4] down
  have a: "handleConnection (NewClient ()) (?c ?v4)
      = (DialFailed SSHNotConnected,
         (?c2 ?v4)\<lparr>outp := [0x05, 0x00, 0x05, 0x04, 0, 0x01, 0, 0, 0, 0, 0, 0]\<rparr>)"
    by simp
  from sendReply_format [where c = "?c ?v4" and ?c1.0 = "?c1 ?v4" and ?c2.0 = "?c2 ?v4"
      and target = "''10.0.0.1:80''" and client = ?up and remote = 7
      and ip = "[127, 0, 0, 1]",
      THEN conjunct2, THEN conjunct2, THEN conjunct2, THEN conjunct2, THEN conjunct1]
    hs [of ?v4] rq [of ?v4] up
  have b: "handleConnection ?up (?c ?v4)
      = (Relaying ''10.0.0.1:80'' 7,
         (?c2 ?v4)\<lparr>outp := [0x05, 0x00, 0x05, 0x00, 0, 0x01, 127, 0, 0, 1, 0x04, 0x38]\<rparr>)"
    by (simp add: p t4)
  from sendReply_format [where c = "?c ?v6" and ?c1.0 = "?c1 ?v6" and ?c2.0 = "?c2 ?v6"
      and target = "''10.0.0.1:80''" and client = ?up and remote = 7
      and ip = "[0, 0, 0, 0, 0, 0, 0, 0, 0, 0, 0, 0, 0, 0, 0, 1]",
      THEN conjunct2, THEN conjunct2, THEN conjunct2, THEN conjunct2, THEN conjunct1]
    hs [of ?v6] rq [of ?v6] up
  have c: "handleConnection ?up (?c ?v6)
      = (Relaying ''10.0.0.1:80'' 7,
         (?c2 ?v6)\<lparr>outp := [0x05, 0x00, 0x05, 0x00, 0, 0x01, 0, 0, 0, 0, 0x04, 0x38]\<rparr>)"
    by (simp add: p t4)
  from sendReply_format [where p = 1080,
      THEN conjunct2, THEN conjunct2, THEN conjunct2, THEN conjunct2, THEN conjunct2]
  have n: "map unat (PutUint16 (word_of_int 1080)) = [4, 56]"
    by simp
  from a b c n show ?thesis by simp
qed

subsection \<open>Calls on a client that is not connected\<close>

text \<open>
  Claim C10. On a client whose connection handle is nil (never connected, closed,
  or after a failed connect), each of \<^verbatim>\<open>Dial\<close>, \<^verbatim>\<open>Listen\<close> and \<^verbatim>\<open>KeepAlive\<close>
  returns the error "SSH not connected" and leaves the client as it was.
\<close>

theorem not_connected_calls_fail:
  "(cl_conn c = None \<longrightarrow>
      Dial c network address = (Inl SSHNotConnected, c)
      \<and> Listen c network address = (Inl SSHNotConnected, c)
      \<and> KeepAlive c = (Some SSHNotConnected, c))
   \<and> cl_conn (NewClient conf) = None
   \<and> cl_conn (snd (Close c)) = None
   \<and> cl_conn (snd (Connect c (Inl err))) = None"
  by (auto simp: Dial_def Listen_def KeepAlive_def NewClient_def Close_def Connect_def Let_def
        split: option.splits)

text \<open>The theorem on a new client and on a connected client after \<^verbatim>\<open>Close\<close>.\<close>

theorem not_connected_calls_fail_witness:
  "Dial (NewClient ()) ''tcp'' ''localhost:80''
     = (Inl SSHNotConnected, \<lparr>cl_cfg = (), cl_conn = None, cl_closed = False\<rparr>)
   \<and> Listen (NewClient ()) ''tcp'' ''0.0.0.0:9090''
     = (Inl SSHNotConnected, \<lparr>cl_cfg = (), cl_conn = None, cl_closed = False\<rparr>)
   \<and> KeepAlive (NewClient ())
     = (Some SSHNotConnected, \<lparr>cl_cfg = (), cl_conn = None, cl_closed = False\<rparr>)
   \<and> KeepAlive (snd (Close
         \<lparr>cl_cfg = (),
            cl_conn = Some \<lparr>t_Dial = \<lambda>_ _. Inr 7, t_Listen = \<lambda>_ _. Inr 8,
                             t_SendRequest = None, t_Close = None\<rparr>,
            cl_closed = False\<rparr>))
     = (Some SSHNotConnected, \<lparr>cl_cfg = (), cl_conn = None, cl_closed = True\<rparr>)"
proof -
  let ?up = "\<lparr>cl_cfg = (),
      cl_conn = Some \<lparr>t_Dial = \<lambda>_ _. Inr 7, t_Listen = \<lambda>_ _. Inr 8,
                       t_SendRequest = None, t_Close = None\<rparr>,
      cl_closed = False\<rparr>"
  have new: "NewClient () = \<lparr>cl_cfg = (), cl_conn = None, cl_closed = False\<rparr>"
    by (simp add: NewClient_def)
  have cls: "snd (Close ?up) = \<lparr>cl_cfg = (), cl_conn = None, cl_closed = True\<rparr>"
    by (simp add: Close_def)
  have n: "cl_conn (NewClient ()) = None" by (simp add: NewClient_def)
  have m: "cl_conn (snd (Close ?up)) = None" by (simp add: cls)
  from not_connected_calls_fail [where c = "NewClient ()" and network = "''tcp''"
      and address = "''localhost:80''", THEN conjunct1, THEN mp, OF n]
  have a: "Dial (NewClient ()) ''tcp'' ''localhost:80'' = (Inl SSHNotConnected, NewClient ())"
    and k: "KeepAlive (NewClient ()) = (Some SSHNotConnected, NewClient ())"
    by simp_all
  from not_connected_calls_fail [where c = "NewClient ()" and network = "''tcp''"
      and address = "''0.0.0.0:9090''", THEN conjunct1, THEN mp, OF n]
  have l: "Listen (NewClient ()) ''tcp'' ''0.0.0.0:9090'' = (Inl SSHNotConnected, NewClient ())"
    by simp
  from not_connected_calls_fail [where c = "snd (Close ?up)" and network = "''tcp''"
      and address = "''localhost:80''", THEN conjunct1, THEN mp, OF m]
  have d: "KeepAlive (snd (Close ?up)) = (Some SSHNotConnected, snd (Close ?up))"
    by simp
  from a k l d show ?thesis by (simp add: new cls)
qed

end
